theory Spec2Isabelle
  imports Complex_Main
begin

section \<open>Exceptions\<close>

text \<open>
  A Python exception instance is modelled by the names of the classes on the method
  resolution order of its type (the class itself first, then its ancestors) and by the
  text \<open>str(exc)\<close> returns. Only instances of \<open>Exception\<close> are modelled: the
  handlers of the orchestrator are all \<open>except Exception\<close>, and a \<open>BaseException\<close>
  such as a task cancellation is outside the model. Delays and clock readings, floats in
  the source, are modelled by real numbers (see the retry policy for what this leaves
  out).
\<close>

datatype exn = Exn (exc_mro: "string list") (exc_str: string)

definition isinstance :: "exn \<Rightarrow> string list \<Rightarrow> bool" where
  "isinstance exc classes = list_ex (\<lambda>c. c \<in> set (exc_mro exc)) classes"

section \<open>orchestrator/retry.py\<close>

datatype BackoffStrategy = CONSTANT | LINEAR | EXPONENTIAL

record RetryPolicy =
  max_attempts :: int
  base_delay_seconds :: real
  max_delay_seconds :: real
  backoff_strategy :: BackoffStrategy
  jitter :: real
  retryable_exceptions :: "string list"

text \<open>
  The delays are Python floats. A finite float is modelled by the real number it stands
  for: rounding is not modelled, and the fields of a policy are finite floats. What is
  modelled of the float arithmetic is the exception it raises: the product of a float and
  an \<open>int\<close> converts the \<open>int\<close> to a float first, and that conversion raises
  \<open>OverflowError\<close> when the \<open>int\<close>, rounded to the nearest float, lies beyond the largest
  one, that is from \<open>2 ^ 1024 - 2 ^ 970\<close> on in absolute value. The product of two floats
  never raises.
\<close>

definition overflow_error :: exn where
  "overflow_error =
     Exn [''OverflowError'', ''ArithmeticError'', ''Exception'']
       ''int too large to convert to float''"

definition to_float :: "int \<Rightarrow> exn + real" where
  "to_float n = (if 2 ^ 1024 - 2 ^ 970 \<le> \<bar>n\<bar> then Inl overflow_error else Inr (of_int n))"

text \<open>
  \<open>2 ** e\<close> as the float operand of a product: for \<open>e \<ge> 0\<close> it is the integer power,
  converted by the product; for \<open>e < 0\<close> Python computes the float power, converting the
  exponent first.
\<close>

definition pow2 :: "int \<Rightarrow> exn + real" where
  "pow2 e =
     (if 0 \<le> e then to_float (2 ^ nat e)
      else case to_float e of Inl exc \<Rightarrow> Inl exc | Inr _ \<Rightarrow> Inr (2 powi e))"

text \<open>
  \<open>compute_delay\<close>, in two parts: \<open>capped_delay\<close> is the function up to the cap, and
  \<open>compute_delay\<close> adds the jitter. The argument \<open>u\<close> is the value \<open>random.random()\<close>
  returns, read only when the jitter is positive.
\<close>

definition capped_delay :: "RetryPolicy \<Rightarrow> int \<Rightarrow> exn + real" where
  "capped_delay p attempt =
     (case (if backoff_strategy p = CONSTANT then Inr (base_delay_seconds p)
            else if backoff_strategy p = LINEAR
            then (case to_float attempt of
                    Inl exc \<Rightarrow> Inl exc
                  | Inr a \<Rightarrow> Inr (base_delay_seconds p * a))
            else (case pow2 (attempt - 1) of
                    Inl exc \<Rightarrow> Inl exc
                  | Inr f \<Rightarrow> Inr (base_delay_seconds p * f))) of
        Inl exc \<Rightarrow> Inl exc
      | Inr delay \<Rightarrow> Inr (min delay (max_delay_seconds p)))"


definition should_retry :: "RetryPolicy \<Rightarrow> exn \<Rightarrow> int \<Rightarrow> bool" where
  "should_retry p exception attempt =
     (if attempt \<ge> max_attempts p then False
      else isinstance exception (retryable_exceptions p))"

record 'a RetryResult =
  success :: bool
  result :: "'a option"
  attempts :: int
  last_exception :: "exn option"
  exceptions :: "exn list"

text \<open>
  \<open>retry_async\<close>: the operation is a callable with hidden state, so a call takes the
  state of the world and returns the next one with either the raised exception or the
  value. The loop \<open>for attempt in range(1, max_attempts + 1)\<close> is the recursion on the
  number of attempts left. Before a retry the delay is computed and slept: the sleep has
  no effect on the result and is left out, but \<open>compute_delay\<close> is called in the handler,
  so what it raises leaves \<open>retry_async\<close>. It raises exactly when \<open>capped_delay\<close> does,
  whatever the random number.
\<close>

fun retry_loop ::
  "RetryPolicy \<Rightarrow> ('w \<Rightarrow> (exn + 'a) \<times> 'w) \<Rightarrow> nat \<Rightarrow> int \<Rightarrow> exn list \<Rightarrow> 'w
    \<Rightarrow> (exn + 'a RetryResult) \<times> 'w" where
  "retry_loop p operation 0 attempt excs w =
     (Inr \<lparr>success = False, result = None, attempts = int (length excs),
           last_exception = (if excs = [] then None else Some (last excs)),
           exceptions = excs\<rparr>, w)"
| "retry_loop p operation (Suc n) attempt excs w =
     (case operation w of
        (Inr v, w') \<Rightarrow>
          (Inr \<lparr>success = True, result = Some v, attempts = attempt,
                last_exception = None, exceptions = excs\<rparr>, w')
      | (Inl exc, w') \<Rightarrow>
          (if should_retry p exc attempt
           then (case capped_delay p attempt of
                   Inl overflow \<Rightarrow> (Inl overflow, w')
                 | Inr delay \<Rightarrow> retry_loop p operation n (attempt + 1) (excs @ [exc]) w')
           else retry_loop p operation 0 attempt (excs @ [exc]) w'))"

definition retry_async ::
  "('w \<Rightarrow> (exn + 'a) \<times> 'w) \<Rightarrow> RetryPolicy \<Rightarrow> 'w \<Rightarrow> (exn + 'a RetryResult) \<times> 'w" where
  "retry_async operation p w = retry_loop p operation (nat (max_attempts p)) 1 [] w"




definition DEFAULT_AGENT_RETRY_POLICY :: RetryPolicy where
  "DEFAULT_AGENT_RETRY_POLICY =
     \<lparr>max_attempts = 3, base_delay_seconds = 1, max_delay_seconds = 30,
      backoff_strategy = EXPONENTIAL, jitter = 1 / 10,
      retryable_exceptions = [''Exception'']\<rparr>"

definition NO_RETRY_POLICY :: RetryPolicy where
  "NO_RETRY_POLICY =
     \<lparr>max_attempts = 1, base_delay_seconds = 1, max_delay_seconds = 30,
      backoff_strategy = EXPONENTIAL, jitter = 1 / 10,
      retryable_exceptions = [''Exception'']\<rparr>"









section \<open>orchestrator/circuit\_breaker.py\<close>

datatype CircuitState = CLOSED | OPEN | HALF_OPEN

record CircuitBreakerConfig =
  failure_threshold :: int
  success_threshold :: int
  timeout_seconds :: real
  excluded_exceptions :: "string list"

record CircuitStats =
  total_calls :: int
  successful_calls :: int
  failed_calls :: int
  rejected_calls :: int
  last_failure_time :: "real option"
  last_success_time :: "real option"
  consecutive_failures :: int
  consecutive_successes :: int

text \<open>
  The fields \<open>_state\<close>, \<open>_stats\<close> and \<open>_opened_at\<close> of the dataclass are \<open>cstate\<close>,
  \<open>cstats\<close> and \<open>opened_at\<close>. The lock serialises the accesses of concurrent tasks; the
  model runs one call at a time.
\<close>

record CircuitBreaker =
  cb_name :: string
  cb_config :: CircuitBreakerConfig
  cstate :: CircuitState
  cstats :: CircuitStats
  opened_at :: "real option"

definition new_stats :: CircuitStats where
  "new_stats =
     \<lparr>total_calls = 0, successful_calls = 0, failed_calls = 0, rejected_calls = 0,
      last_failure_time = None, last_success_time = None,
      consecutive_failures = 0, consecutive_successes = 0\<rparr>"







definition reset :: "CircuitBreaker \<Rightarrow> CircuitBreaker" where
  "reset b = b\<lparr>cstate := CLOSED, opened_at := None, cstats := new_stats\<rparr>"












section \<open>orchestrator/async\_execution.py\<close>






















section \<open>Payloads\<close>

text \<open>
  Matters, agent inputs and agent outputs are JSON-like Python values. A \<open>dict\<close> keeps
  its keys in insertion order, so it is an association list; the keys of these documents
  are strings. Values are immutable trees here, so \<open>deepcopy\<close> is the identity. Numbers
  are integers.
\<close>

datatype json =
    JNone
  | JBool bool
  | JInt int
  | JStr string
  | JList "json list"
  | JDict "(string \<times> json) list"

type_synonym dict = "(string \<times> json) list"

text \<open>Python's truth value of an object.\<close>

fun truthy :: "json \<Rightarrow> bool" where
  "truthy JNone = False"
| "truthy (JBool b) = b"
| "truthy (JInt i) = (i \<noteq> 0)"
| "truthy (JStr s) = (s \<noteq> [])"
| "truthy (JList xs) = (xs \<noteq> [])"
| "truthy (JDict d) = (d \<noteq> [])"

fun type_name :: "json \<Rightarrow> string" where
  "type_name JNone = ''NoneType''"
| "type_name (JBool b) = ''bool''"
| "type_name (JInt i) = ''int''"
| "type_name (JStr s) = ''str''"
| "type_name (JList xs) = ''list''"
| "type_name (JDict d) = ''dict''"

text \<open>\<open>d.get(k)\<close>, \<open>d[k] = v\<close> (an existing key keeps its place) and \<open>d.update(e)\<close>.\<close>

definition dict_get :: "dict \<Rightarrow> string \<Rightarrow> json option" where
  "dict_get d k = map_of d k"

fun dict_set :: "dict \<Rightarrow> string \<Rightarrow> json \<Rightarrow> dict" where
  "dict_set [] k v = [(k, v)]"
| "dict_set ((k', v') # d) k v = (if k' = k then (k, v) # d else (k', v') # dict_set d k v)"

fun dict_update :: "dict \<Rightarrow> dict \<Rightarrow> dict" where
  "dict_update d [] = d"
| "dict_update d ((k, v) # e) = dict_update (dict_set d k v) e"

text \<open>A text between single quotes, as the f-strings and error messages write it.\<close>

definition quoted :: "string \<Rightarrow> string" where
  "quoted s = [CHR 0x27] @ s @ [CHR 0x27]"

definition attribute_error :: "json \<Rightarrow> string \<Rightarrow> exn" where
  "attribute_error v attr =
     Exn [''AttributeError'', ''Exception'']
       (quoted (type_name v) @ '' object has no attribute '' @ quoted attr)"

section \<open>orchestrator/service.py: artifacts\<close>

text \<open>
  \<open>_find_nested_artifact\<close>: the values of the payload in order; a value that is a dict
  and has the key ends the search with that entry, even when the entry is \<open>None\<close>;
  otherwise the search goes into the dict and goes on with the next value only when
  nothing was found inside.
\<close>

fun find_nested_artifact :: "dict \<Rightarrow> string \<Rightarrow> json" where
  "find_nested_artifact [] artifact_name = JNone"
| "find_nested_artifact ((k, JDict d) # payload) artifact_name =
     (case map_of d artifact_name of
        Some v \<Rightarrow> v
      | None \<Rightarrow>
          (let nested = find_nested_artifact d artifact_name in
           if nested \<noteq> JNone then nested else find_nested_artifact payload artifact_name))"
| "find_nested_artifact ((k, v) # payload) artifact_name =
     find_nested_artifact payload artifact_name"

text \<open>
  The value \<open>_collect_expected_artifacts\<close> looks up for one name: the top-level entry,
  or the nested one when there is no top-level entry or it is \<open>None\<close>.
\<close>

definition lookup_artifact :: "dict \<Rightarrow> string \<Rightarrow> json" where
  "lookup_artifact payload name =
     (let v = (case dict_get payload name of None \<Rightarrow> JNone | Some v \<Rightarrow> v) in
      if v = JNone then find_nested_artifact payload name else v)"

text \<open>
  The name an entry of \<open>expected_artifacts\<close> declares: entries that are not dicts and
  entries without a truthy \<open>name\<close> are skipped. The names of the plan documents are
  strings; a truthy name of another hashable type can never be found among string keys,
  so skipping it is what the source does, too.
\<close>

definition artifact_name :: "json \<Rightarrow> string option" where
  "artifact_name artifact =
     (case artifact of
        JDict a \<Rightarrow>
          (case dict_get a ''name'' of
             Some (JStr name) \<Rightarrow> (if name = [] then None else Some name)
           | _ \<Rightarrow> None)
      | _ \<Rightarrow> None)"

fun collect_loop :: "dict \<Rightarrow> json list \<Rightarrow> dict \<Rightarrow> dict" where
  "collect_loop payload [] collected = collected"
| "collect_loop payload (artifact # expected) collected =
     (case artifact_name artifact of
        None \<Rightarrow> collect_loop payload expected collected
      | Some name \<Rightarrow>
          (let v = lookup_artifact payload name in
           if v \<noteq> JNone then collect_loop payload expected (dict_set collected name v)
           else collect_loop payload expected collected))"

definition collect_expected_artifacts :: "dict \<Rightarrow> json list \<Rightarrow> dict" where
  "collect_expected_artifacts payload expected_artifacts =
     collect_loop payload expected_artifacts []"

section \<open>orchestrator/service.py: documents\<close>

text \<open>
  The documents of the service are Python dicts with a fixed set of keys; they are
  records here, an optional key being an \<open>option\<close> field. A step of a plan and a step
  result of an execution record are the same kind of document (\<open>re_execute\<close> copies the
  one into the other), so both are the record \<open>step\<close>: the keys of the task-graph node
  first, then the keys execution writes. Field names carry a prefix for the document.
\<close>

record supporting =
  sup_agent :: string
  sup_role :: json
  sup_description :: json
  sup_expected_artifacts :: "json list"

record support_result =
  sr_agent :: string
  sr_role :: json
  sr_description :: json
  sr_status :: "string option"
  sr_error :: "string option"
  sr_output :: "dict option"
  sr_artifacts :: "dict option"
  sr_retry_attempts :: "int option"

record step =
  s_id :: string
  s_agent :: string
  s_dependencies :: "json option"
  s_expected_artifacts :: "json list option"
  s_phase :: "json option"
  s_required_connectors :: "json option"
  s_supporting_agents :: "supporting list option"
  s_status :: "string option"
  s_error :: "string option"
  s_output :: "dict option"
  s_artifacts :: "dict option"
  s_retry_attempts :: "int option"
  s_supporting_outputs :: "support_result list option"
  s_missing_signals :: "string list option"

record plan =
  p_plan_id :: string
  p_status :: string
  p_matter :: dict
  p_graph :: json
  p_steps :: "step list"
  p_connectors :: json

text \<open>
  Modelled from the spec: the \<open>TraceRecorder\<close> (\<open>record(event_name, **fields)\<close>,
  \<open>flush() -> trace_payload\<close>) is not among the sources; the trace is the list of the
  recorded events and \<open>flush\<close> returns it.
\<close>

datatype trace_event =
    PhaseStart string string json
  | PhaseComplete string string "string option"

record execution_record =
  e_plan_id :: string
  e_status :: string
  e_steps :: "step list"
  e_artifacts :: dict
  e_trace :: "trace_event list"
  e_re_execution :: "bool option"

text \<open>
  Modelled from the spec: the \<open>State\<close> aggregate of the repository (\<open>remember_plan\<close>,
  \<open>recall_plan\<close>, \<open>remember_execution\<close>, \<open>recall_execution\<close>, keyed by plan id) is not
  among the sources; it is a pair of maps, and \<open>recall\<close> of an unknown id is \<open>None\<close>.
\<close>

record state =
  plans :: "string \<rightharpoonup> plan"
  executions :: "string \<rightharpoonup> execution_record"

definition remember_plan :: "state \<Rightarrow> string \<Rightarrow> plan \<Rightarrow> state" where
  "remember_plan st pid p = st\<lparr>plans := (plans st)(pid \<mapsto> p)\<rparr>"

definition recall_plan :: "state \<Rightarrow> string \<Rightarrow> plan option" where
  "recall_plan st pid = plans st pid"

definition remember_execution :: "state \<Rightarrow> string \<Rightarrow> execution_record \<Rightarrow> state" where
  "remember_execution st pid r = st\<lparr>executions := (executions st)(pid \<mapsto> r)\<rparr>"

definition recall_execution :: "state \<Rightarrow> string \<Rightarrow> execution_record option" where
  "recall_execution st pid = executions st pid"

text \<open>
  The service object: what the repository holds and the TTL cache in front of it.
  \<open>repository.load_state()\<close> returns the field \<open>repository\<close> and
  \<open>repository.save_state\<close> replaces it.
\<close>

record service =
  repository :: state
  state_cache :: "state option"
  cache_timestamp :: "real option"
  cache_ttl :: real

text \<open>
  The collaborators of the service, which are not among the sources, are parameters:
  the agent registry (an agent is its \<open>run\<close>, a call on the world that raises or returns
  a dict), the connector registry, the document type detector, the routing policy, the
  task graph (a type \<open>'g\<close> with the operations the service calls; a node is given as its
  \<open>as_dict()\<close>, whose \<open>id\<close> is the node's), the schema validation of a matter
  (\<open>Matter.model_validate\<close> followed by \<open>model_dump\<close>; the errors are pairs of the
  location and the message), \<open>uuid4\<close> and the clock.
\<close>

record ('w, 'g) env =
  agents :: "string \<rightharpoonup> (dict \<Rightarrow> 'w \<Rightarrow> (exn + dict) \<times> 'w)"
  retry_policy :: RetryPolicy
  resolve :: "json \<Rightarrow> exn + dict"
  catalogue :: json
  determine_document_type :: "dict \<Rightarrow> 'w \<Rightarrow> (exn + json) \<times> 'w"
  evaluate_exit_conditions :: "step \<Rightarrow> dict \<Rightarrow> string list"
  build_graph :: "dict \<Rightarrow> 'g"
  as_dict :: "'g \<Rightarrow> json"
  from_dict :: "json \<Rightarrow> 'g"
  from_linear_steps :: "step list \<Rightarrow> 'g"
  to_linear_steps :: "'g \<Rightarrow> step list"
  topological_order :: "'g \<Rightarrow> step list"
  model_validate :: "dict \<Rightarrow> (string \<times> string) list + dict"
  uuid4 :: "'w \<Rightarrow> string \<times> 'w"
  now :: "'w \<Rightarrow> real \<times> 'w"

section \<open>orchestrator/exceptions.py and orchestrator/validation.py\<close>

datatype error =
    ValidationError string "string option"
  | PlanNotFoundError string
  | ExecutionNotFoundError string

text \<open>
  \<open>str.strip()\<close> removes the leading and trailing characters for which
  \<open>str.isspace\<close> holds. A character of the model is a code point below 256; of these
  the whitespace characters of Python are U+0009 to U+000D, U+001C to U+001F, U+0020,
  U+0085 and U+00A0.
\<close>

definition is_space :: "char \<Rightarrow> bool" where
  "is_space c =
     (c \<in> set [CHR 0x09, CHR 0x0A, CHR 0x0B, CHR 0x0C, CHR 0x0D,
               CHR 0x1C, CHR 0x1D, CHR 0x1E, CHR 0x1F, CHR 0x20, CHR 0x85, CHR 0xA0])"

definition strip :: "string \<Rightarrow> string" where
  "strip s = rev (dropWhile is_space (rev (dropWhile is_space s)))"

definition validate_matter ::
  "(dict \<Rightarrow> (string \<times> string) list + dict) \<Rightarrow> json option \<Rightarrow> bool \<Rightarrow> error + dict" where
  "validate_matter validate matter require_documents =
     (case matter of
        None \<Rightarrow> Inl (ValidationError ''Matter payload is required'' (Some ''matter''))
      | Some (JDict m) \<Rightarrow>
          (if dict_get m ''summary'' = None
           then Inl (ValidationError (''Matter must include a '' @ quoted ''summary'' @ '' field'')
                       (Some ''summary''))
           else if dict_get m ''parties'' = None
           then Inl (ValidationError (''Matter must include a '' @ quoted ''parties'' @ '' field'')
                       (Some ''parties''))
           else if require_documents \<and> dict_get m ''documents'' = None
           then Inl (ValidationError (''Matter must include a '' @ quoted ''documents'' @ '' field'')
                       (Some ''documents''))
           else (case validate m of
                   Inr validated \<Rightarrow> Inr validated
                 | Inl [] \<Rightarrow> Inl (ValidationError ''Invalid matter payload'' None)
                 | Inl ((loc, msg) # _) \<Rightarrow>
                     Inl (ValidationError (''Invalid matter: '' @ msg) (Some loc))))
      | Some v \<Rightarrow>
          Inl (ValidationError (''Matter must be a dictionary, got '' @ type_name v)
                 (Some ''matter'')))"

definition validate_plan_id :: "string option \<Rightarrow> error + string" where
  "validate_plan_id plan_id =
     (case plan_id of
        None \<Rightarrow> Inl (ValidationError ''Plan ID is required'' (Some ''plan_id''))
      | Some pid \<Rightarrow>
          (let pid = strip pid in
           if pid = [] then Inl (ValidationError ''Plan ID cannot be empty'' (Some ''plan_id''))
           else Inr pid))"

definition validate_execute_params ::
  "(dict \<Rightarrow> (string \<times> string) list + dict) \<Rightarrow> json option \<Rightarrow> string option
    \<Rightarrow> error + (dict option \<times> string option)" where
  "validate_execute_params validate matter plan_id =
     (if matter = None \<and> plan_id = None
      then Inl (ValidationError
                  (''Either '' @ quoted ''matter'' @ '' or '' @ quoted ''plan_id''
                     @ '' must be provided'') None)
      else
        (case (if plan_id \<noteq> None then map_sum id Some (validate_plan_id plan_id)
               else Inr None) of
           Inl e \<Rightarrow> Inl e
         | Inr validated_plan_id \<Rightarrow>
             (case (if matter \<noteq> None then map_sum id Some (validate_matter validate matter True)
                    else Inr None) of
                Inl e \<Rightarrow> Inl e
              | Inr validated_matter \<Rightarrow> Inr (validated_matter, validated_plan_id))))"

section \<open>orchestrator/service.py: the state cache\<close>

definition load_state ::
  "('w, 'g) env \<Rightarrow> service \<Rightarrow> 'w \<Rightarrow> state \<times> service \<times> 'w" where
  "load_state env svc w =
     (let (t, w) = now env w in
      case (state_cache svc, cache_timestamp svc) of
        (Some cached, Some ts) \<Rightarrow>
          (if t - ts < cache_ttl svc then (cached, svc, w)
           else (repository svc,
                 svc\<lparr>state_cache := Some (repository svc), cache_timestamp := Some t\<rparr>, w))
      | _ \<Rightarrow>
          (repository svc,
           svc\<lparr>state_cache := Some (repository svc), cache_timestamp := Some t\<rparr>, w))"

definition save_state ::
  "('w, 'g) env \<Rightarrow> service \<Rightarrow> state \<Rightarrow> 'w \<Rightarrow> service \<times> 'w" where
  "save_state env svc st w =
     (let (t, w) = now env w in
      (svc\<lparr>repository := st, state_cache := Some st, cache_timestamp := Some t\<rparr>, w))"

text \<open>
  The cache is written through: \<open>_save_state\<close> stores the same state in the
  repository and in the cache, and \<open>_load_state\<close> fills the cache from the repository.
  So, as long as this service is the only writer of the repository, the cache is empty
  or holds what the repository holds.
\<close>

definition cache_coherent :: "service \<Rightarrow> bool" where
  "cache_coherent svc \<longleftrightarrow> state_cache svc = None \<or> state_cache svc = Some (repository svc)"

section \<open>orchestrator/service.py: the input of an agent\<close>

definition type_error :: "string \<Rightarrow> exn" where
  "type_error msg = Exn [''TypeError'', ''Exception''] msg"

text \<open>
  \<open>agent_input.setdefault("connectors", {}).update(resolved_connectors)\<close>, done when
  the resolved connectors are not empty. \<open>resolve\<close> may raise, as any call in the
  \<open>try\<close> block.
\<close>

definition with_connectors :: "(json \<Rightarrow> exn + dict) \<Rightarrow> step \<Rightarrow> dict \<Rightarrow> exn + dict" where
  "with_connectors resolve_fn step agent_input =
     (case resolve_fn (case s_required_connectors step of None \<Rightarrow> JList [] | Some c \<Rightarrow> c) of
        Inl e \<Rightarrow> Inl e
      | Inr resolved_connectors \<Rightarrow>
          (if resolved_connectors = [] then Inr agent_input
           else
             (case dict_get agent_input ''connectors'' of
                None \<Rightarrow>
                  Inr (dict_set agent_input ''connectors''
                         (JDict (dict_update [] resolved_connectors)))
              | Some (JDict c) \<Rightarrow>
                  Inr (dict_set agent_input ''connectors''
                         (JDict (dict_update c resolved_connectors)))
              | Some v \<Rightarrow> Inl (attribute_error v ''update''))))"

text \<open>
  \<open>agent_input["document_type"] = t\<close> followed by
  \<open>agent_input.setdefault("metadata", {})["document_type"] = t\<close>.
\<close>

definition set_document_type :: "dict \<Rightarrow> json \<Rightarrow> exn + dict" where
  "set_document_type agent_input t =
     (let agent_input = dict_set agent_input ''document_type'' t in
      case dict_get agent_input ''metadata'' of
        None \<Rightarrow> Inr (dict_set agent_input ''metadata'' (JDict [(''document_type'', t)]))
      | Some (JDict m) \<Rightarrow>
          Inr (dict_set agent_input ''metadata'' (JDict (dict_set m ''document_type'' t)))
      | Some (JList xs) \<Rightarrow>
          Inl (type_error ''list indices must be integers or slices, not str'')
      | Some v \<Rightarrow>
          Inl (type_error (quoted (type_name v) @ '' object does not support item assignment'')))"

text \<open>\<open>d.get(key)\<close> on a value that need not be a dict.\<close>

definition py_get :: "json \<Rightarrow> string \<Rightarrow> exn + json" where
  "py_get v key =
     (case v of
        JDict d \<Rightarrow> Inr (case dict_get d key of None \<Rightarrow> JNone | Some x \<Rightarrow> x)
      | _ \<Rightarrow> Inl (attribute_error v ''get''))"

text \<open>\<open>key in v\<close> for a string key, on a value that need not be a dict.\<close>

definition is_substring :: "string \<Rightarrow> string \<Rightarrow> bool" where
  "is_substring s t = list_ex (\<lambda>i. take (length s) (drop i t) = s) [0..<Suc (length t)]"

definition py_contains :: "json \<Rightarrow> string \<Rightarrow> exn + bool" where
  "py_contains v key =
     (case v of
        JDict d \<Rightarrow> Inr (dict_get d key \<noteq> None)
      | JStr s \<Rightarrow> Inr (is_substring key s)
      | JList xs \<Rightarrow> Inr (JStr key \<in> set xs)
      | _ \<Rightarrow> Inl (type_error (''argument of type '' @ quoted (type_name v)
                                 @ '' is not iterable'')))"

definition get_or :: "dict \<Rightarrow> string \<Rightarrow> json \<Rightarrow> json" where
  "get_or d key dflt = (case dict_get d key of None \<Rightarrow> dflt | Some v \<Rightarrow> v)"

text \<open>
  The document type of \<open>execute\<close>, for the agent \<open>dda\<close>: the first truthy one of
  \<open>output_format.document_type\<close>, \<open>document_type\<close> and \<open>metadata.document_type\<close>, or
  else the detected one.
\<close>

definition document_type_execute ::
  "('w, 'g) env \<Rightarrow> dict \<Rightarrow> 'w \<Rightarrow> (exn + dict) \<times> 'w" where
  "document_type_execute env agent_input w =
     (case py_get (get_or agent_input ''output_format'' (JDict [])) ''document_type'' of
        Inl e \<Rightarrow> (Inl e, w)
      | Inr a \<Rightarrow>
          (case (if truthy a then Inr a
                 else (let b = get_or agent_input ''document_type'' JNone in
                       if truthy b then Inr b
                       else py_get (get_or agent_input ''metadata'' (JDict []))
                              ''document_type'')) of
             Inl e \<Rightarrow> (Inl e, w)
           | Inr doc_type \<Rightarrow>
               (if truthy doc_type then (set_document_type agent_input doc_type, w)
                else
                  (case determine_document_type env agent_input w of
                     (Inl e, w) \<Rightarrow> (Inl e, w)
                   | (Inr detected_type, w) \<Rightarrow>
                       (set_document_type agent_input detected_type, w)))))"

text \<open>
  The document type of \<open>execute_stream\<close> and \<open>re_execute\<close>, for the agent \<open>dda\<close>:
  detected only when neither the input nor its \<open>metadata\<close> has a \<open>document_type\<close>.
\<close>

definition document_type_detect ::
  "('w, 'g) env \<Rightarrow> dict \<Rightarrow> 'w \<Rightarrow> (exn + dict) \<times> 'w" where
  "document_type_detect env agent_input w =
     (if dict_get agent_input ''document_type'' \<noteq> None then (Inr agent_input, w)
      else
        (case py_contains (get_or agent_input ''metadata'' (JDict [])) ''document_type'' of
           Inl e \<Rightarrow> (Inl e, w)
         | Inr True \<Rightarrow> (Inr agent_input, w)
         | Inr False \<Rightarrow>
             (case determine_document_type env agent_input w of
                (Inl e, w) \<Rightarrow> (Inl e, w)
              | (Inr detected_type, w) \<Rightarrow>
                  (set_document_type agent_input detected_type, w))))"

text \<open>
  \<open>retry_async(lambda: agent.run(agent_input), self.retry_policy, ...)\<close> and the
  statements after it: without success the last exception, or \<open>Exception(msg)\<close>
  when there is none, is raised; with success the output and the number of attempts
  are returned.
\<close>

definition run_with_retry ::
  "RetryPolicy \<Rightarrow> (dict \<Rightarrow> 'w \<Rightarrow> (exn + dict) \<times> 'w) \<Rightarrow> string \<Rightarrow> dict \<Rightarrow> 'w
    \<Rightarrow> (exn + dict \<times> int) \<times> 'w" where
  "run_with_retry policy run msg agent_input w =
     (case retry_async (run agent_input) policy w of
        (Inl overflow, w) \<Rightarrow> (Inl overflow, w)
      | (Inr retry_result, w) \<Rightarrow>
          if \<not> success retry_result
          then (Inl (case last_exception retry_result of
                       Some e \<Rightarrow> e
                     | None \<Rightarrow> Exn [''Exception''] msg), w)
          else (Inr (the (result retry_result), attempts retry_result), w))"

section \<open>orchestrator/service.py: one node of the walk\<close>

text \<open>
  The local variables of the walk over the task graph. \<open>plan_steps\<close> is \<open>plan["steps"]\<close>,
  whose entries \<open>execute\<close> annotates in place. \<open>agent_inputs\<close> is not a variable of the
  source: it lists, for each step whose agent is handed to \<open>retry_async\<close>, the id of the
  step, the name of the agent and the input built for it, so that properties of the
  inputs can be stated.
\<close>

record 'w loop_state =
  plan_matter :: dict
  steps_results :: "step list"
  artifacts :: dict
  propagated :: dict
  overall_status :: string
  needs_attention :: bool
  trace :: "trace_event list"
  plan_steps :: "step list"
  agent_inputs :: "(string \<times> string \<times> dict) list"
  world :: 'w

definition expected_of :: "step \<Rightarrow> json list" where
  "expected_of step = (case s_expected_artifacts step of None \<Rightarrow> [] | Some e \<Rightarrow> e)"

definition phase_of :: "step \<Rightarrow> json" where
  "phase_of step = (case s_phase step of None \<Rightarrow> JNone | Some p \<Rightarrow> p)"

definition new_step_result :: "step \<Rightarrow> step" where
  "new_step_result step =
     \<lparr>s_id = s_id step, s_agent = s_agent step,
      s_dependencies = Some (case s_dependencies step of None \<Rightarrow> JList [] | Some d \<Rightarrow> d),
      s_expected_artifacts = Some (expected_of step),
      s_phase = Some (phase_of step),
      s_required_connectors = None, s_supporting_agents = None,
      s_status = None, s_error = None, s_output = None, s_artifacts = None,
      s_retry_attempts = None, s_supporting_outputs = None, s_missing_signals = None\<rparr>"

definition not_registered :: "string \<Rightarrow> string" where
  "not_registered agent_name = ''Agent '' @ quoted agent_name @ '' is not registered''"

text \<open>
  \<open>plan_steps_map = {step["id"]: step for step in plan["steps"]}\<close> keeps, for an id,
  the last step with it; a write to that step is a write to that entry of the list.
\<close>

definition find_step :: "step list \<Rightarrow> string \<Rightarrow> step option" where
  "find_step steps sid =
     (case filter (\<lambda>s. s_id s = sid) steps of [] \<Rightarrow> None | s # ss \<Rightarrow> Some (last (s # ss)))"

fun replace_first :: "step \<Rightarrow> step list \<Rightarrow> step list" where
  "replace_first step [] = []"
| "replace_first step (s # ss) =
     (if s_id s = s_id step then step # ss else s # replace_first step ss)"

definition put_step :: "step list \<Rightarrow> step \<Rightarrow> step list" where
  "put_step steps step = rev (replace_first step (rev steps))"

text \<open>
  \<open>propagated.update(produced)\<close> and \<open>plan_matter.update(produced)\<close>, done when the
  collected artifacts are not empty.
\<close>

definition hoist :: "'w loop_state \<Rightarrow> dict \<Rightarrow> 'w loop_state" where
  "hoist st produced =
     (if produced \<noteq> []
      then st\<lparr>propagated := dict_update (propagated st) produced,
              plan_matter := dict_update (plan_matter st) produced\<rparr>
      else st)"

text \<open>
  The \<open>try\<close> block of a step, in two parts. \<open>build_input\<close> is the part before
  \<open>retry_async\<close>: the agent input (the matter snapshot updated with the propagated
  values, then the resolved connectors) and the document type for the agent \<open>dda\<close>
  (\<open>document_type\<close> is the variant of the calling operation); any of these calls may
  raise. \<open>try_agent\<close> adds the run of the agent under the retry policy. Its result
  is the exception the \<open>except\<close> clause catches, or the output with the number of
  attempts.
\<close>

definition build_input ::
  "('w, 'g) env \<Rightarrow> (('w, 'g) env \<Rightarrow> dict \<Rightarrow> 'w \<Rightarrow> (exn + dict) \<times> 'w) \<Rightarrow> 'w loop_state \<Rightarrow> step
    \<Rightarrow> (exn + dict) \<times> 'w" where
  "build_input env document_type st step =
     (case with_connectors (resolve env) step
             (dict_update (plan_matter st) (propagated st)) of
        Inl e \<Rightarrow> (Inl e, world st)
      | Inr agent_input \<Rightarrow>
          (if s_agent step = ''dda'' then document_type env agent_input (world st)
           else (Inr agent_input, world st)))"

definition try_agent ::
  "('w, 'g) env \<Rightarrow> (('w, 'g) env \<Rightarrow> dict \<Rightarrow> 'w \<Rightarrow> (exn + dict) \<times> 'w) \<Rightarrow> 'w loop_state \<Rightarrow> step
    \<Rightarrow> (dict \<Rightarrow> 'w \<Rightarrow> (exn + dict) \<times> 'w) \<Rightarrow> (exn + dict \<times> int) \<times> 'w loop_state" where
  "try_agent env document_type st step run =
     (case build_input env document_type st step of
        (Inl e, w) \<Rightarrow> (Inl e, st\<lparr>world := w\<rparr>)
      | (Inr agent_input, w) \<Rightarrow>
          (case run_with_retry (retry_policy env) run ''Agent execution failed''
                  agent_input w of
             (r, w) \<Rightarrow>
               (r, st\<lparr>world := w,
                      agent_inputs := agent_inputs st
                        @ [(s_id step, s_agent step, agent_input)]\<rparr>)))"

text \<open>
  The blocks the three loop bodies share. \<open>unregistered\<close> is the branch
  \<open>if agent is None\<close>; \<open>trace_start\<close> is the \<open>phase_start\<close> record;
  \<open>record_failure\<close> is the \<open>except\<close> clause, the \<open>finally\<close> clause and the append
  of the failed step result; \<open>record_success\<close> is what the statements after
  \<open>retry_async\<close>, the \<open>else\<close> clause and the \<open>finally\<close> clause do to the step result
  and to the walk's variables; \<open>exit_check\<close> is the evaluation of the exit conditions;
  \<open>append_result\<close> is \<open>steps_results.append(step_result)\<close>.
\<close>

definition append_result :: "'w loop_state \<Rightarrow> step \<Rightarrow> 'w loop_state" where
  "append_result st step_result = st\<lparr>steps_results := steps_results st @ [step_result]\<rparr>"

definition unregistered :: "'w loop_state \<Rightarrow> step \<Rightarrow> string \<Rightarrow> 'w loop_state" where
  "unregistered st step_result agent_name =
     append_result (st\<lparr>overall_status := ''failed''\<rparr>)
       (step_result\<lparr>s_status := Some ''failed'',
                     s_error := Some (not_registered agent_name)\<rparr>)"

definition trace_start :: "'w loop_state \<Rightarrow> step \<Rightarrow> 'w loop_state" where
  "trace_start st step =
     st\<lparr>trace := trace st @ [PhaseStart (s_id step) (s_agent step) (phase_of step)]\<rparr>"

definition record_failure :: "'w loop_state \<Rightarrow> step \<Rightarrow> exn \<Rightarrow> 'w loop_state" where
  "record_failure st step_result exc =
     (let step_result = step_result\<lparr>s_status := Some ''failed'',
                                    s_error := Some (exc_str exc)\<rparr> in
      append_result
        (st\<lparr>overall_status := ''failed'',
            trace := trace st
              @ [PhaseComplete (s_id step_result) (s_agent step_result)
                   (s_status step_result)]\<rparr>)
        step_result)"

definition record_success ::
  "'w loop_state \<Rightarrow> step \<Rightarrow> step \<Rightarrow> dict \<Rightarrow> int \<Rightarrow> step \<times> dict \<times> 'w loop_state" where
  "record_success st step step_result output n =
     (let agent_name = s_agent step;
          step_result =
            (if n > 1 then step_result\<lparr>s_retry_attempts := Some n\<rparr> else step_result);
          step_result = step_result\<lparr>s_status := Some ''complete'', s_output := Some output\<rparr>;
          st = st\<lparr>artifacts := dict_set (artifacts st) agent_name (JDict output),
                  propagated := dict_set (propagated st) agent_name (JDict output)\<rparr>;
          produced_artifacts = collect_expected_artifacts output (expected_of step);
          st = hoist st produced_artifacts;
          step_result =
            (if produced_artifacts \<noteq> []
             then step_result\<lparr>s_artifacts := Some produced_artifacts\<rparr>
             else step_result);
          st = st\<lparr>trace := trace st
                  @ [PhaseComplete (s_id step_result) agent_name (s_status step_result)]\<rparr>
      in (step_result, produced_artifacts, st))"

definition exit_check ::
  "('w, 'g) env \<Rightarrow> step \<Rightarrow> step \<Rightarrow> 'w loop_state \<Rightarrow> string list \<times> step \<times> 'w loop_state" where
  "exit_check env step step_result st =
     (let missing_signals =
            evaluate_exit_conditions env step (dict_update (plan_matter st) (propagated st))
      in if missing_signals \<noteq> []
         then (missing_signals,
               step_result\<lparr>s_status := Some ''attention_required'',
                            s_missing_signals := Some missing_signals\<rparr>,
               st\<lparr>needs_attention := True\<rparr>)
         else (missing_signals, step_result, st))"

text \<open>
  The body of the loop of \<open>execute_stream\<close> and of \<open>re_execute\<close>, from
  \<open>agent_name = step["agent"]\<close> to \<open>steps_results.append(step_result)\<close>; the two
  bodies are the same statement for statement, apart from the events \<open>execute_stream\<close>
  yields.
\<close>

definition run_step_plain :: "('w, 'g) env \<Rightarrow> 'w loop_state \<Rightarrow> step \<Rightarrow> 'w loop_state" where
  "run_step_plain env st step =
     (let agent_name = s_agent step; step_result = new_step_result step in
      case agents env agent_name of
        None \<Rightarrow> unregistered st step_result agent_name
      | Some run \<Rightarrow>
          (case try_agent env document_type_detect (trace_start st step) step run of
             (Inl exc, st) \<Rightarrow> record_failure st step_result exc
           | (Inr (output, n), st) \<Rightarrow>
               (case record_success st step step_result output n of
                  (step_result, produced_artifacts, st) \<Rightarrow>
                    (case exit_check env step step_result st of
                       (missing_signals, step_result, st) \<Rightarrow>
                         append_result st step_result))))"

text \<open>
  One supporting agent of a step of \<open>execute\<close>: the body of
  \<open>for supporting in step.get("supporting_agents", []) or []\<close>, on the walk's
  variables, the list \<open>supporting_outputs\<close> and the flag \<open>support_failed\<close>.
\<close>

definition support_one ::
  "('w, 'g) env \<Rightarrow> string \<Rightarrow> dict \<Rightarrow> step \<Rightarrow> 'w loop_state \<times> support_result list \<times> bool
    \<Rightarrow> supporting \<Rightarrow> 'w loop_state \<times> support_result list \<times> bool" where
  "support_one env agent_name output step acc supporting =
     (case acc of (st, supporting_outputs, support_failed) \<Rightarrow>
      let support_agent_name = sup_agent supporting;
          support_result =
            \<lparr>sr_agent = support_agent_name, sr_role = sup_role supporting,
             sr_description = sup_description supporting, sr_status = None, sr_error = None,
             sr_output = None, sr_artifacts = None, sr_retry_attempts = None\<rparr>
      in case agents env support_agent_name of
        None \<Rightarrow>
          (st\<lparr>overall_status := ''failed''\<rparr>,
           supporting_outputs
             @ [support_result\<lparr>sr_status := Some ''failed'',
                  sr_error := Some (''Supporting agent '' @ quoted support_agent_name
                                      @ '' is not registered'')\<rparr>],
           True)
      | Some run \<Rightarrow>
          (let support_input =
                 dict_update (dict_update (plan_matter st) (propagated st))
                   [(''primary_agent'', JStr agent_name), (''primary_output'', JDict output),
                    (''phase'', phase_of step), (''support_role'', sup_role supporting)]
           in case run_with_retry (retry_policy env) run ''Supporting agent execution failed''
                     support_input (world st) of
             (Inl exc, w) \<Rightarrow>
               (st\<lparr>world := w, overall_status := ''failed''\<rparr>,
                supporting_outputs
                  @ [support_result\<lparr>sr_status := Some ''failed'',
                                     sr_error := Some (exc_str exc)\<rparr>],
                True)
           | (Inr (support_output, n), w) \<Rightarrow>
               (let support_result =
                      (if n > 1 then support_result\<lparr>sr_retry_attempts := Some n\<rparr>
                       else support_result);
                    support_result = support_result\<lparr>sr_status := Some ''complete'',
                                                    sr_output := Some support_output\<rparr>;
                    st = st\<lparr>world := w,
                            propagated := dict_set (propagated st) support_agent_name
                                            (JDict support_output)\<rparr>;
                    produced = collect_expected_artifacts support_output
                                 (sup_expected_artifacts supporting);
                    st = hoist st produced;
                    support_result =
                      (if produced \<noteq> [] then support_result\<lparr>sr_artifacts := Some produced\<rparr>
                       else support_result)
                in (st, supporting_outputs @ [support_result], support_failed))))"

text \<open>
  The body of the loop of \<open>execute\<close>, from \<open>agent_name = step["agent"]\<close> on. It returns
  the step of the plan as annotated and the walk's variables. \<open>annotate_success\<close> is
  what the \<open>else\<close> clause writes into the step of the plan, \<open>run_supporting\<close> the
  loop over the supporting agents, and \<open>conclude_execute\<close> the statements after that
  loop.
\<close>

definition annotate_success :: "step \<Rightarrow> dict \<Rightarrow> dict \<Rightarrow> step" where
  "annotate_success step produced_artifacts output =
     (let step = (if produced_artifacts \<noteq> []
                  then step\<lparr>s_artifacts := Some produced_artifacts\<rparr> else step)
      in step\<lparr>s_status := Some ''complete'', s_output := Some output\<rparr>)"

definition run_supporting ::
  "('w, 'g) env \<Rightarrow> string \<Rightarrow> dict \<Rightarrow> step \<Rightarrow> 'w loop_state
    \<Rightarrow> 'w loop_state \<times> support_result list \<times> bool" where
  "run_supporting env agent_name output step st =
     foldl (support_one env agent_name output step) (st, [], False)
       (case s_supporting_agents step of None \<Rightarrow> [] | Some xs \<Rightarrow> xs)"

definition conclude_execute ::
  "('w, 'g) env \<Rightarrow> step \<Rightarrow> step \<Rightarrow> 'w loop_state \<times> support_result list \<times> bool
    \<Rightarrow> step \<times> 'w loop_state" where
  "conclude_execute env step step_result acc =
     (case acc of (st, supporting_outputs, support_failed) \<Rightarrow>
        (let step_result =
               (if supporting_outputs \<noteq> []
                then step_result\<lparr>s_supporting_outputs := Some supporting_outputs\<rparr>
                else step_result);
             step =
               (if supporting_outputs \<noteq> [] \<and> s_supporting_outputs step = None
                then step\<lparr>s_supporting_outputs := Some supporting_outputs\<rparr>
                else step)
         in if support_failed
            then (step\<lparr>s_status := Some ''failed''\<rparr>,
                  append_result st (step_result\<lparr>s_status := Some ''failed''\<rparr>))
            else
              (case exit_check env step step_result st of
                 (missing_signals, step_result, st) \<Rightarrow>
                   ((if missing_signals \<noteq> []
                     then step\<lparr>s_status := Some ''attention_required'',
                               s_missing_signals := Some missing_signals\<rparr>
                     else step),
                    append_result st step_result))))"

definition run_step_execute ::
  "('w, 'g) env \<Rightarrow> 'w loop_state \<Rightarrow> step \<Rightarrow> step \<times> 'w loop_state" where
  "run_step_execute env st step =
     (let agent_name = s_agent step; step_result = new_step_result step in
      case agents env agent_name of
        None \<Rightarrow>
          (step\<lparr>s_status := Some ''failed'', s_error := Some (not_registered agent_name)\<rparr>,
           unregistered st step_result agent_name)
      | Some run \<Rightarrow>
          (case try_agent env document_type_execute (trace_start st step) step run of
             (Inl exc, st) \<Rightarrow>
               (step\<lparr>s_status := Some ''failed'', s_error := Some (exc_str exc)\<rparr>,
                record_failure st step_result exc)
           | (Inr (output, n), st) \<Rightarrow>
               (case record_success st step step_result output n of
                  (step_result, produced_artifacts, st) \<Rightarrow>
                    (let step = annotate_success step produced_artifacts output
                     in conclude_execute env step step_result
                          (run_supporting env agent_name output step st)))))"

text \<open>\<open>step = plan_steps_map.get(node.id, node.as_dict())\<close>.\<close>

definition step_of_node :: "step list \<Rightarrow> step \<Rightarrow> step" where
  "step_of_node steps node = (case find_step steps (s_id node) of None \<Rightarrow> node | Some s \<Rightarrow> s)"

definition process_node_execute ::
  "('w, 'g) env \<Rightarrow> 'w loop_state \<Rightarrow> step \<Rightarrow> 'w loop_state" where
  "process_node_execute env st node =
     (case run_step_execute env st (step_of_node (plan_steps st) node) of
        (step, st) \<Rightarrow> st\<lparr>plan_steps := put_step (plan_steps st) step\<rparr>)"

definition process_node_plain ::
  "('w, 'g) env \<Rightarrow> 'w loop_state \<Rightarrow> step \<Rightarrow> 'w loop_state" where
  "process_node_plain env st node = run_step_plain env st (step_of_node (plan_steps st) node)"

section \<open>orchestrator/service.py: the operations\<close>

text \<open>
  The attribute \<open>self.state\<close> is assigned from \<open>_load_state()\<close> at the start of every
  operation and not read before, so it is a local value of the operation here.
\<close>

definition plan_op ::
  "('w, 'g) env \<Rightarrow> service \<Rightarrow> json option \<Rightarrow> 'w \<Rightarrow> (error + plan \<times> state) \<times> service \<times> 'w" where
  "plan_op env svc matter w =
     (case validate_matter (model_validate env) matter True of
        Inl e \<Rightarrow> (Inl e, svc, w)
      | Inr validated_matter \<Rightarrow>
          (let (st, svc, w) = load_state env svc w;
               (plan_id, w) = uuid4 env w;
               graph = build_graph env validated_matter;
               plan = \<lparr>p_plan_id = plan_id, p_status = ''planned'',
                       p_matter = validated_matter, p_graph = as_dict env graph,
                       p_steps = to_linear_steps env graph, p_connectors = catalogue env\<rparr>;
               st = remember_plan st plan_id plan;
               (svc, w) = save_state env svc st w
           in (Inr (plan, st), svc, w)))"

text \<open>
  The first part of \<open>execute\<close> and of \<open>execute_stream\<close>, up to the plan and its id:
  the validation of the parameters, then the persisted plan, with its matter replaced
  when one is given, or a new plan for the matter.
\<close>

definition resolve_plan ::
  "('w, 'g) env \<Rightarrow> service \<Rightarrow> json option \<Rightarrow> string option \<Rightarrow> 'w
    \<Rightarrow> (error + plan \<times> string \<times> state) \<times> service \<times> 'w" where
  "resolve_plan env svc matter plan_id w =
     (case validate_execute_params (model_validate env) matter plan_id of
        Inl e \<Rightarrow> (Inl e, svc, w)
      | Inr (validated_matter, validated_plan_id) \<Rightarrow>
          (let (st, svc, w) = load_state env svc w in
           case validated_plan_id of
             Some pid \<Rightarrow>
               (case recall_plan st pid of
                  None \<Rightarrow> (Inl (PlanNotFoundError pid), svc, w)
                | Some plan \<Rightarrow>
                    (case validated_matter of
                       Some m \<Rightarrow>
                         (let plan = plan\<lparr>p_matter := m\<rparr>;
                              st = remember_plan st pid plan;
                              (svc, w) = save_state env svc st w
                          in (Inr (plan, pid, st), svc, w))
                     | None \<Rightarrow> (Inr (plan, pid, st), svc, w)))
           | None \<Rightarrow>
               (case plan_op env svc (map_option JDict validated_matter) w of
                  (Inl e, svc, w) \<Rightarrow> (Inl e, svc, w)
                | (Inr (plan, st), svc, w) \<Rightarrow> (Inr (plan, p_plan_id plan, st), svc, w))))"

definition graph_of :: "('w, 'g) env \<Rightarrow> plan \<Rightarrow> 'g" where
  "graph_of env plan =
     (if truthy (p_graph plan) then from_dict env (p_graph plan)
      else from_linear_steps env (p_steps plan))"

definition init_loop :: "plan \<Rightarrow> 'w \<Rightarrow> 'w loop_state" where
  "init_loop plan w =
     \<lparr>plan_matter = p_matter plan, steps_results = [], artifacts = [], propagated = [],
      overall_status = ''complete'', needs_attention = False, trace = [],
      plan_steps = p_steps plan, agent_inputs = [], world = w\<rparr>"

text \<open>The status computed after the walk.\<close>

definition final_status :: "'w loop_state \<Rightarrow> string" where
  "final_status st =
     (if overall_status st \<noteq> ''failed''
      then (if needs_attention st then ''attention_required'' else ''complete'')
      else overall_status st)"

text \<open>
  The plan \<open>execute\<close> and \<open>execute_stream\<close> walk (its steps are those of the graph
  when it has none), and the walk of \<open>execute\<close> over it.
\<close>

definition plan_for_execute :: "('w, 'g) env \<Rightarrow> plan \<Rightarrow> plan" where
  "plan_for_execute env plan =
     (if p_steps plan = [] then plan\<lparr>p_steps := to_linear_steps env (graph_of env plan)\<rparr>
      else plan)"

definition execute_walk :: "('w, 'g) env \<Rightarrow> plan \<Rightarrow> 'w \<Rightarrow> 'w loop_state" where
  "execute_walk env plan w =
     foldl (process_node_execute env) (init_loop (plan_for_execute env plan) w)
       (topological_order env (graph_of env plan))"


definition execute ::
  "('w, 'g) env \<Rightarrow> service \<Rightarrow> json option \<Rightarrow> string option \<Rightarrow> 'w
    \<Rightarrow> (error + execution_record) \<times> service \<times> 'w" where
  "execute env svc matter plan_id w =
     (case resolve_plan env svc matter plan_id w of
        (Inl e, svc, w) \<Rightarrow> (Inl e, svc, w)
      | (Inr (plan, plan_id, st), svc, w) \<Rightarrow>
          (let ls = execute_walk env plan w;
               status = final_status ls;
               execution_record =
                 \<lparr>e_plan_id = plan_id, e_status = status, e_steps = steps_results ls,
                  e_artifacts = artifacts ls, e_trace = trace ls, e_re_execution = None\<rparr>;
               plan = plan\<lparr>p_steps := plan_steps ls, p_status := status\<rparr>;
               st = remember_plan st plan_id plan;
               st = remember_execution st plan_id execution_record;
               (svc, w) = save_state env svc st (world ls)
           in (Inr execution_record, svc, w)))"

text \<open>
  \<open>execute_stream\<close>, consumed to its end: the events it yields, in order. The event
  after a step is \<open>agent_failed\<close> with the error of the step result when the step
  failed, and \<open>agent_completed\<close> otherwise.
\<close>

datatype event =
    PlanCreated string
  | AgentStarted string int int json
  | AgentFailed string string
  | AgentCompleted string int int
  | ExecutionComplete string string int

definition process_node_stream ::
  "('w, 'g) env \<Rightarrow> int \<Rightarrow> 'w loop_state \<times> event list \<times> int \<Rightarrow> step
    \<Rightarrow> 'w loop_state \<times> event list \<times> int" where
  "process_node_stream env total_steps acc node =
     (case acc of (st, events, current_step) \<Rightarrow>
      let current_step = current_step + 1;
          step = step_of_node (plan_steps st) node;
          events = events
            @ [AgentStarted (s_agent step) current_step total_steps (phase_of step)];
          st = run_step_plain env st step;
          step_result = last (steps_results st)
      in (st,
          events
            @ [if s_status step_result = Some ''failed''
               then AgentFailed (s_agent step) (the (s_error step_result))
               else AgentCompleted (s_agent step) current_step total_steps],
          current_step))"

definition stream_walk ::
  "('w, 'g) env \<Rightarrow> plan \<Rightarrow> 'w \<Rightarrow> 'w loop_state \<times> event list \<times> int" where
  "stream_walk env plan w =
     (let nodes = topological_order env (graph_of env plan) in
      foldl (process_node_stream env (int (length nodes)))
        (init_loop (plan_for_execute env plan) w, [], 0) nodes)"

definition execute_stream ::
  "('w, 'g) env \<Rightarrow> service \<Rightarrow> json option \<Rightarrow> string option \<Rightarrow> 'w
    \<Rightarrow> (error + event list) \<times> service \<times> 'w" where
  "execute_stream env svc matter plan_id w =
     (case resolve_plan env svc matter plan_id w of
        (Inl e, svc, w) \<Rightarrow> (Inl e, svc, w)
      | (Inr (plan, plan_id, st), svc, w) \<Rightarrow>
          (let (ls, events, current_step) = stream_walk env plan w;
               status = final_status ls;
               execution_record =
                 \<lparr>e_plan_id = plan_id, e_status = status, e_steps = steps_results ls,
                  e_artifacts = artifacts ls, e_trace = trace ls, e_re_execution = None\<rparr>;
               plan = (plan_for_execute env plan)\<lparr>p_status := status\<rparr>;
               st = remember_plan st plan_id plan;
               st = remember_execution st plan_id execution_record;
               (svc, w) = save_state env svc st (world ls)
           in (Inr ([PlanCreated plan_id] @ events
                    @ [ExecutionComplete status plan_id (int (length (artifacts ls)))]),
               svc, w)))"

definition get_plan ::
  "('w, 'g) env \<Rightarrow> service \<Rightarrow> string \<Rightarrow> 'w \<Rightarrow> (error + plan) \<times> service \<times> 'w" where
  "get_plan env svc plan_id w =
     (let (st, svc, w) = load_state env svc w in
      case recall_plan st plan_id of
        None \<Rightarrow> (Inl (PlanNotFoundError plan_id), svc, w)
      | Some plan \<Rightarrow> (Inr plan, svc, w))"

definition get_artifacts ::
  "('w, 'g) env \<Rightarrow> service \<Rightarrow> string \<Rightarrow> 'w \<Rightarrow> (error + dict) \<times> service \<times> 'w" where
  "get_artifacts env svc plan_id w =
     (let (st, svc, w) = load_state env svc w in
      case recall_execution st plan_id of
        None \<Rightarrow> (Inl (ExecutionNotFoundError plan_id), svc, w)
      | Some execution \<Rightarrow> (Inr (e_artifacts execution), svc, w))"

definition get_execution ::
  "('w, 'g) env \<Rightarrow> service \<Rightarrow> string \<Rightarrow> 'w \<Rightarrow> (error + execution_record) \<times> service \<times> 'w" where
  "get_execution env svc plan_id w =
     (let (st, svc, w) = load_state env svc w in
      case recall_execution st plan_id of
        None \<Rightarrow> (Inl (ExecutionNotFoundError plan_id), svc, w)
      | Some execution \<Rightarrow> (Inr execution, svc, w))"

section \<open>orchestrator/service.py: re\_execute\<close>

text \<open>The id of the first step of the previous execution whose status is \<open>failed\<close>.\<close>

definition first_failed :: "step list \<Rightarrow> string option" where
  "first_failed steps =
     (case filter (\<lambda>s. s_status s = Some ''failed'') steps of
        [] \<Rightarrow> None | s # _ \<Rightarrow> Some (s_id s))"

definition start_point :: "string option \<Rightarrow> bool \<Rightarrow> execution_record option \<Rightarrow> string option" where
  "start_point from_step resume_from_failure previous_execution =
     (if from_step \<noteq> None \<and> from_step \<noteq> Some [] then from_step
      else if resume_from_failure \<and> previous_execution \<noteq> None
      then first_failed (e_steps (the previous_execution))
      else None)"

text \<open>
  The loop that restores the steps of the previous execution, on the walk's variables
  and the flag \<open>past_start_point\<close>; it stops at the step with the id of the start point.
  \<open>restore_one\<close> is what it does with a step whose status is \<open>complete\<close>.
\<close>

definition restore_one :: "'w loop_state \<Rightarrow> step \<Rightarrow> 'w loop_state" where
  "restore_one st step =
     (let st = st\<lparr>steps_results := steps_results st @ [step]\<rparr>;
          st = (case s_output step of
                  Some output \<Rightarrow>
                    (if output \<noteq> []
                     then st\<lparr>artifacts := dict_set (artifacts st) (s_agent step) (JDict output),
                             propagated := dict_set (propagated st) (s_agent step)
                                             (JDict output)\<rparr>
                     else st)
                | None \<Rightarrow> st)
      in (case s_artifacts step of
            Some arts \<Rightarrow>
              (if arts \<noteq> []
               then st\<lparr>propagated := dict_update (propagated st) arts,
                       plan_matter := dict_update (plan_matter st) arts\<rparr>
               else st)
          | None \<Rightarrow> st))"

fun restore_steps ::
  "string \<Rightarrow> step list \<Rightarrow> 'w loop_state \<times> bool \<Rightarrow> 'w loop_state \<times> bool" where
  "restore_steps start_step_id [] acc = acc"
| "restore_steps start_step_id (step # steps) (st, past_start_point) =
     (if s_id step = start_step_id then (st, True)
      else if s_status step = Some ''complete''
      then restore_steps start_step_id steps (restore_one st step, past_start_point)
      else restore_steps start_step_id steps (st, past_start_point))"

definition process_node_re_execute ::
  "('w, 'g) env \<Rightarrow> string option \<Rightarrow> 'w loop_state \<times> bool \<Rightarrow> step \<Rightarrow> 'w loop_state \<times> bool" where
  "process_node_re_execute env start_step_id acc node =
     (case acc of (st, past_start_point) \<Rightarrow>
      let step = step_of_node (plan_steps st) node in
      if \<not> past_start_point \<and> Some (s_id step) \<noteq> start_step_id then (st, past_start_point)
      else if list_ex (\<lambda>r. s_id r = s_id step) (steps_results st) then (st, True)
      else (run_step_plain env st step, True))"

definition re_execute_walk ::
  "('w, 'g) env \<Rightarrow> plan \<Rightarrow> execution_record option \<Rightarrow> string option \<Rightarrow> 'w
    \<Rightarrow> 'w loop_state \<times> bool" where
  "re_execute_walk env plan previous_execution start_step_id w =
     (let acc = (init_loop plan w, start_step_id = None);
          acc = (if previous_execution \<noteq> None \<and> start_step_id \<noteq> None
                    \<and> start_step_id \<noteq> Some []
                 then restore_steps (the start_step_id)
                        (e_steps (the previous_execution)) acc
                 else acc)
      in foldl (process_node_re_execute env start_step_id) acc
           (topological_order env (graph_of env plan)))"

definition re_execute ::
  "('w, 'g) env \<Rightarrow> service \<Rightarrow> string \<Rightarrow> string option \<Rightarrow> bool \<Rightarrow> 'w
    \<Rightarrow> (error + execution_record) \<times> service \<times> 'w" where
  "re_execute env svc plan_id from_step resume_from_failure w =
     (let (st, svc, w) = load_state env svc w in
      case recall_plan st plan_id of
        None \<Rightarrow> (Inl (PlanNotFoundError plan_id), svc, w)
      | Some plan \<Rightarrow>
          (let previous_execution = recall_execution st plan_id;
               start_step_id = start_point from_step resume_from_failure previous_execution;
               (ls, past_start_point) =
                 re_execute_walk env plan previous_execution start_step_id w;
               status = final_status ls;
               execution_record =
                 \<lparr>e_plan_id = plan_id, e_status = status, e_steps = steps_results ls,
                  e_artifacts = artifacts ls, e_trace = trace ls,
                  e_re_execution = Some True\<rparr>;
               plan = plan\<lparr>p_status := status\<rparr>;
               st = remember_plan st plan_id plan;
               st = remember_execution st plan_id execution_record;
               (svc, w) = save_state env svc st (world ls)
           in (Inr execution_record, svc, w)))"

section \<open>orchestrator/service.py: object identities and deepcopy\<close>

text \<open>
  The documents above are values. Whether a caller who mutates a returned document
  changes what the service holds is a matter of object identity, so \<open>plan\<close>,
  \<open>get_plan\<close>, \<open>get_artifacts\<close> and \<open>get_execution\<close> are embedded a second time, over
  objects: a dict or list is a node with an identity and its entries (those of a list
  are keyed by position), the same identity at two places is the same object, and a
  mutation of an object is seen wherever it occurs.
\<close>

datatype obj = Atom json | Node nat "(string \<times> obj) list"

text \<open>The identities of the objects reachable from an object, and its value.\<close>

primrec obj_ids :: "obj \<Rightarrow> nat list" where
  "obj_ids (Atom a) = []"
| "obj_ids (Node i es) = i # concat (map snd (map (map_prod id obj_ids) es))"

primrec erase :: "obj \<Rightarrow> json" where
  "erase (Atom a) = a"
| "erase (Node i es) = JDict (map (map_prod id erase) es)"

text \<open>
  \<open>copy.deepcopy\<close>: every reachable dict and list is allocated anew and the sharing
  among them is kept. The new identities are those of the original moved past the
  identities in use (\<open>c\<close> is the first unused one); the second component is the first
  identity unused afterwards.
\<close>

primrec relabel :: "nat \<Rightarrow> obj \<Rightarrow> obj" where
  "relabel c (Atom a) = Atom a"
| "relabel c (Node i es) = Node (c + i) (map (map_prod id (relabel c)) es)"

definition deepcopy :: "obj \<Rightarrow> nat \<Rightarrow> obj \<times> nat" where
  "deepcopy d c = (relabel c d, c + Suc (foldr max (obj_ids d) 0))"

text \<open>
  A mutation by a caller: the object with the identity \<open>i\<close> gets the entries \<open>new\<close>.
\<close>

primrec mutate :: "nat \<Rightarrow> (string \<times> obj) list \<Rightarrow> obj \<Rightarrow> obj" where
  "mutate i new (Atom a) = Atom a"
| "mutate i new (Node j es) =
     (if j = i then Node i new else Node j (map (map_prod id (mutate i new)) es))"

text \<open>
  Modelled from the spec: the \<open>State\<close> aggregate is not among the sources;
  \<open>remember_*\<close> stores the object it is given and \<open>recall_*\<close> returns the stored
  object itself, not a copy. The service holds one such state in memory (\<open>self.state\<close>,
  which is also the cache); a state read from the repository consists of new objects.
  \<open>next_id\<close> is the first identity not in use.
\<close>

record ref_state =
  ref_plans :: "(string \<times> obj) list"
  ref_executions :: "(string \<times> obj) list"

record ref_service =
  held :: ref_state
  next_id :: nat

definition remember_plan_ref :: "ref_state \<Rightarrow> string \<Rightarrow> obj \<Rightarrow> ref_state" where
  "remember_plan_ref st pid p = st\<lparr>ref_plans := (pid, p) # ref_plans st\<rparr>"

definition recall_plan_ref :: "ref_state \<Rightarrow> string \<Rightarrow> obj option" where
  "recall_plan_ref st pid = map_of (ref_plans st) pid"

definition remember_execution_ref :: "ref_state \<Rightarrow> string \<Rightarrow> obj \<Rightarrow> ref_state" where
  "remember_execution_ref st pid r = st\<lparr>ref_executions := (pid, r) # ref_executions st\<rparr>"

definition recall_execution_ref :: "ref_state \<Rightarrow> string \<Rightarrow> obj option" where
  "recall_execution_ref st pid = map_of (ref_executions st) pid"

text \<open>
  \<open>plan\<close>, from the dict literal on: the validated matter, the graph, the steps and
  the catalogue of connectors are objects the collaborators have built; the plan is a
  new dict of them, a deep copy of it is remembered, and the plan itself is returned.
\<close>

definition plan_ref ::
  "ref_service \<Rightarrow> string \<Rightarrow> obj \<Rightarrow> obj \<Rightarrow> obj \<Rightarrow> obj \<Rightarrow> obj \<times> ref_service" where
  "plan_ref svc plan_id validated_matter graph steps connectors =
     (let plan = Node (next_id svc)
                   [(''plan_id'', Atom (JStr plan_id)), (''status'', Atom (JStr ''planned'')),
                    (''matter'', validated_matter), (''graph'', graph), (''steps'', steps),
                    (''connectors'', connectors)];
          (copy, c) = deepcopy plan (Suc (next_id svc))
      in (plan, svc\<lparr>held := remember_plan_ref (held svc) plan_id copy, next_id := c\<rparr>))"

definition get_plan_ref :: "ref_service \<Rightarrow> string \<Rightarrow> (error + obj) \<times> ref_service" where
  "get_plan_ref svc plan_id =
     (case recall_plan_ref (held svc) plan_id of
        None \<Rightarrow> (Inl (PlanNotFoundError plan_id), svc)
      | Some plan \<Rightarrow>
          (let (copy, c) = deepcopy plan (next_id svc)
           in (Inr copy, svc\<lparr>next_id := c\<rparr>)))"

text \<open>\<open>execution.get("artifacts", {})\<close>: the entry, or a new empty dict.\<close>

definition artifacts_of :: "obj \<Rightarrow> nat \<Rightarrow> obj \<times> nat" where
  "artifacts_of execution c =
     (case execution of
        Node i es \<Rightarrow>
          (case map_of es ''artifacts'' of
             Some a \<Rightarrow> (a, c)
           | None \<Rightarrow> (Node c [], Suc c))
      | Atom a \<Rightarrow> (Node c [], Suc c))"

definition get_artifacts_ref :: "ref_service \<Rightarrow> string \<Rightarrow> (error + obj) \<times> ref_service" where
  "get_artifacts_ref svc plan_id =
     (case recall_execution_ref (held svc) plan_id of
        None \<Rightarrow> (Inl (ExecutionNotFoundError plan_id), svc)
      | Some execution \<Rightarrow>
          (let (a, c) = artifacts_of execution (next_id svc);
               (copy, c) = deepcopy a c
           in (Inr copy, svc\<lparr>next_id := c\<rparr>)))"

definition get_execution_ref :: "ref_service \<Rightarrow> string \<Rightarrow> (error + obj) \<times> ref_service" where
  "get_execution_ref svc plan_id =
     (case recall_execution_ref (held svc) plan_id of
        None \<Rightarrow> (Inl (ExecutionNotFoundError plan_id), svc)
      | Some execution \<Rightarrow>
          (let (copy, c) = deepcopy execution (next_id svc)
           in (Inr copy, svc\<lparr>next_id := c\<rparr>)))"

text \<open>
  The objects the state holds, what a mutation by a caller does to them, and the
  service after it (the caller may have allocated objects, too). A service is well
  formed when the objects it holds have identities in use.
\<close>

definition state_ids :: "ref_state \<Rightarrow> nat list" where
  "state_ids st =
     concat (map (obj_ids \<circ> snd) (ref_plans st)) @ concat (map (obj_ids \<circ> snd) (ref_executions st))"

definition mutate_state :: "nat \<Rightarrow> (string \<times> obj) list \<Rightarrow> ref_state \<Rightarrow> ref_state" where
  "mutate_state i new st =
     \<lparr>ref_plans = map (map_prod id (mutate i new)) (ref_plans st),
      ref_executions = map (map_prod id (mutate i new)) (ref_executions st)\<rparr>"

definition after_mutation ::
  "nat \<Rightarrow> (string \<times> obj) list \<Rightarrow> nat \<Rightarrow> ref_service \<Rightarrow> ref_service" where
  "after_mutation i new c svc = \<lparr>held = mutate_state i new (held svc), next_id = c\<rparr>"

definition wf_service :: "ref_service \<Rightarrow> bool" where
  "wf_service svc = list_all (\<lambda>i. i < next_id svc) (state_ids (held svc))"

text \<open>The value a read returns.\<close>

definition read_value :: "(error + obj) \<times> ref_service \<Rightarrow> error + json" where
  "read_value r = map_sum id erase (fst r)"

text \<open>
  A service that holds nothing, and the objects of a plan: a matter with a list of
  parties, and empty graph, steps and catalogue.
\<close>

definition empty_ref_service :: ref_service where
  "empty_ref_service = \<lparr>held = \<lparr>ref_plans = [], ref_executions = []\<rparr>, next_id = 4\<rparr>"

definition matter_obj :: obj where
  "matter_obj = Node 0 [(''summary'', Atom (JStr ''dispute'')), (''parties'', Node 1 [])]"

definition execution_obj :: obj where
  "execution_obj =
     Node 20 [(''plan_id'', Atom (JStr ''plan-0'')), (''status'', Atom (JStr ''complete'')),
              (''artifacts'', Node 21 [(''lda'', Node 22 [(''facts'', Atom (JStr ''f''))])])]"

section \<open>A concrete service\<close>

text \<open>
  A service over a world that counts the agent calls, used to instantiate the theorems
  on the operations. The task graph is the list of its nodes. Three agents are
  registered: \<open>lda\<close> returns facts, \<open>dea\<close> always raises, and \<open>lsa\<close> returns a
  strategy together with the number of the call; the agent \<open>dda\<close> is not registered.
  The exit condition of a step of \<open>lsa\<close> asks for a \<open>timeline\<close>.
\<close>

definition lda_run :: "dict \<Rightarrow> nat \<Rightarrow> (exn + dict) \<times> nat" where
  "lda_run agent_input w = (Inr [(''facts'', JDict [(''claim'', JStr ''breach'')])], Suc w)"

definition dea_run :: "dict \<Rightarrow> nat \<Rightarrow> (exn + dict) \<times> nat" where
  "dea_run agent_input w =
     (Inl (Exn [''RuntimeError'', ''Exception''] ''model unavailable''), Suc w)"

definition lsa_run :: "dict \<Rightarrow> nat \<Rightarrow> (exn + dict) \<times> nat" where
  "lsa_run agent_input w =
     (Inr [(''strategy'', JStr ''settle''), (''call'', JInt (int w))], Suc w)"

definition test_env :: "(nat, step list) env" where
  "test_env =
     \<lparr>agents = map_of [(''lda'', lda_run), (''dea'', dea_run), (''lsa'', lsa_run)],
      retry_policy = DEFAULT_AGENT_RETRY_POLICY,
      resolve = (\<lambda>required. Inr []),
      catalogue = JDict [],
      determine_document_type = (\<lambda>agent_input w. (Inr (JStr ''memorandum''), w)),
      evaluate_exit_conditions =
        (\<lambda>step context.
           if s_agent step = ''lsa'' \<and> dict_get context ''timeline'' = None
           then [''timeline''] else []),
      build_graph = (\<lambda>matter. []),
      as_dict = (\<lambda>graph. JNone),
      from_dict = (\<lambda>payload. []),
      from_linear_steps = (\<lambda>steps. steps),
      to_linear_steps = (\<lambda>graph. graph),
      topological_order = (\<lambda>graph. graph),
      model_validate = Inr,
      uuid4 = (\<lambda>w. (''plan-0'', w)),
      now = (\<lambda>w. (0, w))\<rparr>"

definition test_step :: "string \<Rightarrow> string \<Rightarrow> json list \<Rightarrow> step" where
  "test_step sid agent expected =
     \<lparr>s_id = sid, s_agent = agent, s_dependencies = None,
      s_expected_artifacts = Some expected, s_phase = None,
      s_required_connectors = None, s_supporting_agents = None,
      s_status = None, s_error = None, s_output = None, s_artifacts = None,
      s_retry_attempts = None, s_supporting_outputs = None, s_missing_signals = None\<rparr>"

definition test_plan :: "string \<Rightarrow> step list \<Rightarrow> plan" where
  "test_plan pid steps =
     \<lparr>p_plan_id = pid, p_status = ''planned'',
      p_matter = [(''summary'', JStr ''dispute''), (''parties'', JList [])],
      p_graph = JNone, p_steps = steps, p_connectors = JDict []\<rparr>"

definition test_service :: "plan \<Rightarrow> service" where
  "test_service plan =
     \<lparr>repository = \<lparr>plans = [p_plan_id plan \<mapsto> plan], executions = Map.empty\<rparr>,
      state_cache = None, cache_timestamp = None, cache_ttl = 60\<rparr>"

text \<open>
  A plan of four steps: \<open>lda\<close>, the unregistered \<open>dda\<close>, the failing \<open>dea\<close> and
  \<open>lsa\<close>.
\<close>

definition mixed_plan :: plan where
  "mixed_plan =
     test_plan ''plan-1''
       [test_step ''s1'' ''lda'' [JDict [(''name'', JStr ''facts'')]],
        test_step ''s2'' ''dda'' [],
        test_step ''s3'' ''dea'' [],
        test_step ''s4'' ''lsa'' []]"





section \<open>The status an execution record is to have\<close>

text \<open>
  The status as the specification words it, from the step results of the record:
  \<open>failed\<close> if a step result is marked failed, otherwise \<open>attention_required\<close> if a
  step result was demoted, otherwise \<open>complete\<close>.
\<close>

definition status_of_steps :: "step list \<Rightarrow> string" where
  "status_of_steps steps =
     (if list_ex (\<lambda>s. s_status s = Some ''failed'') steps then ''failed''
      else if list_ex (\<lambda>s. s_status s = Some ''attention_required'') steps
      then ''attention_required''
      else ''complete'')"

text \<open>
  The invariant of the three walks: \<open>overall_status\<close> is \<open>failed\<close> exactly when a
  step result is marked failed, and is \<open>complete\<close> otherwise; \<open>needs_attention\<close> holds
  exactly when a step result is marked \<open>attention_required\<close>.
\<close>

definition status_inv :: "'w loop_state \<Rightarrow> bool" where
  "status_inv st \<longleftrightarrow>
     (overall_status st = ''failed'' \<or> overall_status st = ''complete'') \<and>
     (overall_status st = ''failed'' \<longleftrightarrow>
        list_ex (\<lambda>s. s_status s = Some ''failed'') (steps_results st)) \<and>
     (needs_attention st \<longleftrightarrow>
        list_ex (\<lambda>s. s_status s = Some ''attention_required'') (steps_results st))"

section \<open>The steps a re-execution is to preserve\<close>



section \<open>The keys a step may write\<close>




text \<open>
  The value of the key is hoisted: the propagated values and the matter snapshot hold
  it. The keys of the propagated values, a dict the walk builds, are distinct.
\<close>

definition hoisted :: "string \<Rightarrow> json \<Rightarrow> 'w loop_state \<Rightarrow> bool" where
  "hoisted name v st =
     (distinct (map fst (propagated st)) \<and> dict_get (propagated st) name = Some v
      \<and> dict_get (plan_matter st) name = Some v)"

section \<open>Properties of the retry policy and the retry executor\<close>










lemma to_float_power_of_two:
  "to_float (2 ^ i) = (if i < 1024 then Inr (2 ^ i) else Inl overflow_error)"
proof (cases "i < 1024")
  case True
  then have "(2::int) ^ i \<le> 2 ^ 1023" by (intro power_increasing) auto
  also have "\<dots> < 2 ^ 1024 - 2 ^ 970" by simp
  finally show ?thesis using True by (simp add: to_float_def)
next
  case False
  then have "(2::int) ^ 1024 \<le> 2 ^ i" by (intro power_increasing) auto
  moreover have "(2::int) ^ 1024 - 2 ^ 970 \<le> 2 ^ 1024" by simp
  ultimately have "(2::int) ^ 1024 - 2 ^ 970 \<le> 2 ^ i" by (rule order_trans [rotated])
  then show ?thesis using False by (simp add: to_float_def)
qed

lemma pow2_value:
  "pow2 e =
     (if e < 1024 \<and> - (2 ^ 1024 - 2 ^ 970) < e then Inr (2 powi e) else Inl overflow_error)"
proof (cases "0 \<le> e")
  case True
  have "(0::int) < 2 ^ 1024 - 2 ^ 970" by simp
  with True have "- (2 ^ 1024 - 2 ^ 970) < e" by linarith
  moreover have "nat e < 1024 \<longleftrightarrow> e < 1024" using True by auto
  ultimately show ?thesis using True
    by (simp add: pow2_def to_float_power_of_two power_int_def)
next
  case False
  then have "e < 1024" "\<bar>e\<bar> = - e" by auto
  then show ?thesis using False by (auto simp: pow2_def to_float_def)
qed

lemma capped_delay_value:
  "capped_delay p attempt =
     (case backoff_strategy p of
        CONSTANT \<Rightarrow> Inr (min (base_delay_seconds p) (max_delay_seconds p))
      | LINEAR \<Rightarrow>
          (if \<bar>attempt\<bar> < 2 ^ 1024 - 2 ^ 970
           then Inr (min (base_delay_seconds p * of_int attempt) (max_delay_seconds p))
           else Inl overflow_error)
      | EXPONENTIAL \<Rightarrow>
          (if attempt \<le> 1024 \<and> - (2 ^ 1024 - 2 ^ 970) < attempt - 1
           then Inr (min (base_delay_seconds p * 2 powi (attempt - 1)) (max_delay_seconds p))
           else Inl overflow_error))"
  by (cases "backoff_strategy p") (auto simp: capped_delay_def pow2_value to_float_def)

lemma capped_delay_jitter [simp]: "capped_delay (p\<lparr>jitter := j\<rparr>) attempt = capped_delay p attempt"
  by (cases "backoff_strategy p") (simp_all add: capped_delay_value)











section \<open>Properties of the circuit breaker\<close>













section \<open>Properties of the asynchronous job manager\<close>










section \<open>Properties of the walk: the overall status\<close>

lemma status_inv_final: "status_inv st \<Longrightarrow> final_status st = status_of_steps (steps_results st)"
  by (auto simp: status_inv_def final_status_def status_of_steps_def)

lemma status_inv_init: "status_inv (init_loop plan w)"
  by (simp add: status_inv_def init_loop_def)

lemma hoist_fields [simp]:
  "steps_results (hoist st p) = steps_results st"
  "overall_status (hoist st p) = overall_status st"
  "needs_attention (hoist st p) = needs_attention st"
  "artifacts (hoist st p) = artifacts st"
  "trace (hoist st p) = trace st"
  "plan_steps (hoist st p) = plan_steps st"
  "agent_inputs (hoist st p) = agent_inputs st"
  "world (hoist st p) = world st"
  by (simp_all add: hoist_def)

lemma try_agent_fields:
  "try_agent env dt st step run = (r, st') \<Longrightarrow>
   steps_results st' = steps_results st \<and> overall_status st' = overall_status st \<and>
   needs_attention st' = needs_attention st \<and> plan_steps st' = plan_steps st \<and>
   plan_matter st' = plan_matter st \<and> propagated st' = propagated st \<and>
   artifacts st' = artifacts st \<and> trace st' = trace st"
  by (auto simp: try_agent_def split: sum.splits prod.splits if_splits)

lemma trace_start_fields [simp]:
  "steps_results (trace_start st step) = steps_results st"
  "overall_status (trace_start st step) = overall_status st"
  "needs_attention (trace_start st step) = needs_attention st"
  "artifacts (trace_start st step) = artifacts st"
  "plan_steps (trace_start st step) = plan_steps st"
  "plan_matter (trace_start st step) = plan_matter st"
  "propagated (trace_start st step) = propagated st"
  "agent_inputs (trace_start st step) = agent_inputs st"
  "world (trace_start st step) = world st"
  by (simp_all add: trace_start_def)

lemma record_success_fields:
  "record_success st step sr out n = (sr', p, st') \<Longrightarrow>
   steps_results st' = steps_results st \<and> overall_status st' = overall_status st \<and>
   needs_attention st' = needs_attention st \<and> plan_steps st' = plan_steps st \<and>
   agent_inputs st' = agent_inputs st \<and> world st' = world st \<and>
   s_status sr' = Some ''complete'' \<and> s_output sr' = Some out \<and> s_id sr' = s_id sr \<and>
   p = collect_expected_artifacts out (expected_of step)"
  by (auto simp: record_success_def Let_def)

lemma exit_check_fields:
  "exit_check env step sr st = (m, sr', st') \<Longrightarrow>
   steps_results st' = steps_results st \<and> overall_status st' = overall_status st \<and>
   plan_steps st' = plan_steps st \<and> agent_inputs st' = agent_inputs st \<and>
   world st' = world st \<and> s_id sr' = s_id sr \<and> s_output sr' = s_output sr \<and>
   (m \<noteq> [] \<longrightarrow> needs_attention st' \<and> s_status sr' = Some ''attention_required'') \<and>
   (m = [] \<longrightarrow> needs_attention st' = needs_attention st \<and> sr' = sr)"
  by (auto simp: exit_check_def Let_def split: if_splits)

lemma status_inv_unregistered: "status_inv st \<Longrightarrow> status_inv (unregistered st sr a)"
  by (auto simp: status_inv_def unregistered_def append_result_def)

lemma status_inv_record_failure: "status_inv st \<Longrightarrow> status_inv (record_failure st sr exc)"
  by (auto simp: status_inv_def record_failure_def append_result_def Let_def)

lemma status_inv_append:
  assumes "status_inv st0" "steps_results st = steps_results st0"
    "s_status sr = Some ''failed'' \<longrightarrow> overall_status st = ''failed''"
    "s_status sr \<noteq> Some ''failed'' \<longrightarrow> overall_status st = overall_status st0"
    "needs_attention st \<longleftrightarrow> needs_attention st0 \<or> s_status sr = Some ''attention_required''"
  shows "status_inv (append_result st sr)"
  using assms by (auto simp: status_inv_def append_result_def)

lemma run_step_plain_status_inv:
  assumes "status_inv st"
  shows "status_inv (run_step_plain env st step)"
proof (cases "agents env (s_agent step)")
  case None
  with assms show ?thesis
    by (simp add: run_step_plain_def status_inv_unregistered)
next
  case (Some run)
  obtain r st2 where t: "try_agent env document_type_detect (trace_start st step) step run
      = (r, st2)"
    by (cases "try_agent env document_type_detect (trace_start st step) step run")
  from try_agent_fields [OF t] have f: "steps_results st2 = steps_results st"
    "overall_status st2 = overall_status st" "needs_attention st2 = needs_attention st"
    by simp_all
  have i2: "status_inv st2" using assms f by (auto simp: status_inv_def)
  show ?thesis
  proof (cases r)
    case (Inl exc)
    with Some t i2 show ?thesis
      by (simp add: run_step_plain_def status_inv_record_failure)
  next
    case (Inr p)
    obtain out n where p: "p = (out, n)" by (cases p)
    obtain sr3 pr st3 where rs:
      "record_success st2 step (new_step_result step) out n = (sr3, pr, st3)"
      by (metis prod_cases3)
    obtain m sr4 st4 where ec: "exit_check env step sr3 st3 = (m, sr4, st4)"
      by (metis prod_cases3)
    note a = record_success_fields [OF rs] and b = exit_check_fields [OF ec]
    have "status_inv (append_result st4 sr4)"
      using i2 a b by (intro status_inv_append [of st2]) auto
    then show ?thesis
      using Some t Inr p rs ec by (simp add: run_step_plain_def)
  qed
qed

lemma support_one_keeps:
  assumes "support_one env a out step (st, outs, f) sp = (st', outs', f')"
    "f \<longrightarrow> overall_status st = ''failed''"
  shows "steps_results st' = steps_results st \<and> needs_attention st' = needs_attention st \<and>
    plan_steps st' = plan_steps st \<and> (f' \<longrightarrow> overall_status st' = ''failed'') \<and>
    (\<not> f' \<longrightarrow> overall_status st' = overall_status st) \<and> (f \<longrightarrow> f')"
  using assms
  by (auto simp: support_one_def Let_def split: option.splits sum.splits prod.splits if_splits)

lemma support_fold_keeps:
  "foldl (support_one env a out step) (st, outs, f) sps = (st', outs', f') \<Longrightarrow>
   (f \<longrightarrow> overall_status st = ''failed'') \<Longrightarrow>
   steps_results st' = steps_results st \<and> needs_attention st' = needs_attention st \<and>
   plan_steps st' = plan_steps st \<and> (f' \<longrightarrow> overall_status st' = ''failed'') \<and>
   (\<not> f' \<longrightarrow> overall_status st' = overall_status st) \<and> (f \<longrightarrow> f')"
proof (induction sps arbitrary: st outs f)
  case Nil
  then show ?case by simp
next
  case (Cons sp sps)
  obtain st1 outs1 f1 where s: "support_one env a out step (st, outs, f) sp = (st1, outs1, f1)"
    by (cases "support_one env a out step (st, outs, f) sp")
  from support_one_keeps [OF s Cons.prems(2)] have k:
    "steps_results st1 = steps_results st" "needs_attention st1 = needs_attention st"
    "plan_steps st1 = plan_steps st" "f1 \<longrightarrow> overall_status st1 = ''failed''"
    "\<not> f1 \<longrightarrow> overall_status st1 = overall_status st" "f \<longrightarrow> f1"
    by simp_all
  from Cons.prems(1) have "foldl (support_one env a out step) (st1, outs1, f1) sps
      = (st', outs', f')"
    by (simp add: s)
  from Cons.IH [OF this k(4)] k show ?case by auto
qed

lemma run_supporting_keeps:
  "run_supporting env a out step st = (st', outs', f') \<Longrightarrow>
   steps_results st' = steps_results st \<and> needs_attention st' = needs_attention st \<and>
   plan_steps st' = plan_steps st \<and> (f' \<longrightarrow> overall_status st' = ''failed'') \<and>
   (\<not> f' \<longrightarrow> overall_status st' = overall_status st)"
  unfolding run_supporting_def by (drule support_fold_keeps) simp_all

lemma conclude_execute_status_inv:
  assumes "status_inv st0" "steps_results st = steps_results st0"
    "needs_attention st = needs_attention st0" "fl \<longrightarrow> overall_status st = ''failed''"
    "\<not> fl \<longrightarrow> overall_status st = overall_status st0" "s_status sr = Some ''complete''"
    "conclude_execute env step sr (st, outs, fl) = (step', st')"
  shows "status_inv st'"
proof -
  define sr4 where "sr4 = (if outs \<noteq> [] then sr\<lparr>s_supporting_outputs := Some outs\<rparr> else sr)"
  define step4 where "step4 = (if outs \<noteq> [] \<and> s_supporting_outputs step = None
      then step\<lparr>s_supporting_outputs := Some outs\<rparr> else step)"
  obtain m sr5 st5 where ec: "exit_check env step4 sr4 st = (m, sr5, st5)"
    by (metis prod_cases3)
  note b = exit_check_fields [OF ec]
  have s4: "s_status sr4 = Some ''complete''" using assms(6) by (simp add: sr4_def)
  have e: "st' = (if fl then append_result st (sr4\<lparr>s_status := Some ''failed''\<rparr>)
      else append_result st5 sr5)"
    using assms(7) ec
    by (simp add: conclude_execute_def Let_def step4_def [symmetric] sr4_def [symmetric]
        split: if_splits)
  show ?thesis
  proof (cases fl)
    case True
    have "status_inv (append_result st (sr4\<lparr>s_status := Some ''failed''\<rparr>))"
      using assms(1-5) True by (intro status_inv_append [of st0]) auto
    with e True show ?thesis by simp
  next
    case False
    have "status_inv (append_result st5 sr5)"
      using assms(1-5) b False s4 by (intro status_inv_append [of st0]) auto
    with e False show ?thesis by simp
  qed
qed

lemma run_step_execute_status_inv:
  assumes "status_inv st" "run_step_execute env st step = (step', st')"
  shows "status_inv st'"
proof (cases "agents env (s_agent step)")
  case None
  with assms show ?thesis
    by (auto simp: run_step_execute_def Let_def status_inv_unregistered)
next
  case (Some run)
  obtain r st2 where t: "try_agent env document_type_execute (trace_start st step) step run
      = (r, st2)"
    by (cases "try_agent env document_type_execute (trace_start st step) step run")
  from try_agent_fields [OF t] have f: "steps_results st2 = steps_results st"
    "overall_status st2 = overall_status st" "needs_attention st2 = needs_attention st"
    by simp_all
  have i2: "status_inv st2" using assms(1) f by (auto simp: status_inv_def)
  show ?thesis
  proof (cases r)
    case (Inl exc)
    with assms(2) Some t i2 show ?thesis
      by (auto simp: run_step_execute_def Let_def status_inv_record_failure)
  next
    case (Inr p)
    obtain out n where p: "p = (out, n)" by (cases p)
    obtain sr3 pr st3 where rs:
      "record_success st2 step (new_step_result step) out n = (sr3, pr, st3)"
      by (metis prod_cases3)
    obtain st4 outs fl where fo:
      "run_supporting env (s_agent step) out (annotate_success step pr out) st3 = (st4, outs, fl)"
      by (metis prod_cases3)
    note a = record_success_fields [OF rs] and k = run_supporting_keeps [OF fo]
    have e: "conclude_execute env (annotate_success step pr out) sr3 (st4, outs, fl) = (step', st')"
      using assms(2) Some t Inr p rs fo by (simp add: run_step_execute_def Let_def)
    show ?thesis
      by (rule conclude_execute_status_inv [OF i2 _ _ _ _ _ e]) (use a k in auto)
  qed
qed


lemma status_inv_plan_steps [simp]: "status_inv (st\<lparr>plan_steps := ps\<rparr>) = status_inv st"
  by (simp add: status_inv_def)

lemma process_node_execute_status_inv:
  "status_inv st \<Longrightarrow> status_inv (process_node_execute env st node)"
  by (cases "run_step_execute env st (step_of_node (plan_steps st) node)")
    (auto simp: process_node_execute_def dest: run_step_execute_status_inv)

lemma process_node_plain_status_inv:
  "status_inv st \<Longrightarrow> status_inv (process_node_plain env st node)"
  by (simp add: process_node_plain_def run_step_plain_status_inv)

lemma foldl_invariant:
  "P s \<Longrightarrow> (\<And>s x. P s \<Longrightarrow> P (f s x)) \<Longrightarrow> P (foldl f s xs)"
  by (induction xs arbitrary: s) simp_all

lemma execute_walk_status_inv: "status_inv (execute_walk env plan w)"
  unfolding execute_walk_def
  by (rule foldl_invariant) (simp_all add: status_inv_init process_node_execute_status_inv)

lemma process_node_stream_status_inv:
  "status_inv (fst acc) \<Longrightarrow> status_inv (fst (process_node_stream env t acc node))"
  by (cases acc) (simp add: process_node_stream_def Let_def run_step_plain_status_inv)

lemma stream_walk_status_inv: "status_inv (fst (stream_walk env plan w))"
  unfolding stream_walk_def Let_def
  by (rule foldl_invariant [where P = "\<lambda>acc. status_inv (fst acc)"])
    (simp_all add: status_inv_init process_node_stream_status_inv)

lemma restore_one_status_inv:
  "status_inv st \<Longrightarrow> s_status step = Some ''complete'' \<Longrightarrow> status_inv (restore_one st step)"
  by (auto simp: status_inv_def restore_one_def Let_def split: option.splits)

lemma restore_steps_status_inv:
  "status_inv (fst acc) \<Longrightarrow> status_inv (fst (restore_steps sid steps acc))"
  by (induction sid steps acc rule: restore_steps.induct)
    (simp_all add: restore_one_status_inv)

lemma process_node_re_execute_status_inv:
  "status_inv (fst acc) \<Longrightarrow> status_inv (fst (process_node_re_execute env sid acc node))"
  by (cases acc) (simp add: process_node_re_execute_def Let_def run_step_plain_status_inv)

lemma re_execute_walk_status_inv: "status_inv (fst (re_execute_walk env plan prev sid w))"
  unfolding re_execute_walk_def Let_def
  by (rule foldl_invariant [where P = "\<lambda>acc. status_inv (fst acc)"])
    (simp_all add: status_inv_init process_node_re_execute_status_inv restore_steps_status_inv)


lemma save_state_repository:
  "save_state env svc st w = (svc', w') \<Longrightarrow> repository svc' = st"
  by (auto simp: save_state_def split: prod.splits)

lemma execute_record:
  assumes "execute env svc matter plan_id w = (Inr r, svc', w')"
  shows "\<exists>plan pid st svc1 w1.
      resolve_plan env svc matter plan_id w = (Inr (plan, pid, st), svc1, w1) \<and>
      r = \<lparr>e_plan_id = pid, e_status = final_status (execute_walk env plan w1),
            e_steps = steps_results (execute_walk env plan w1),
            e_artifacts = artifacts (execute_walk env plan w1),
            e_trace = trace (execute_walk env plan w1), e_re_execution = None\<rparr> \<and>
      repository svc' =
        remember_execution
          (remember_plan st pid
             (plan\<lparr>p_steps := plan_steps (execute_walk env plan w1),
                    p_status := final_status (execute_walk env plan w1)\<rparr>)) pid r"
proof -
  obtain x svc1 w1 where rp: "resolve_plan env svc matter plan_id w = (x, svc1, w1)"
    by (metis prod_cases3)
  with assms obtain plan pid st where x: "x = Inr (plan, pid, st)"
    by (cases x) (auto simp: execute_def)
  show ?thesis
    using assms rp x
    by (auto simp: execute_def Let_def split: prod.splits dest: save_state_repository)
qed

lemma re_execute_record:
  assumes "re_execute env svc plan_id from_step resume w = (Inr r, svc', w')"
  shows "\<exists>plan st svc1 w1 ls.
      load_state env svc w = (st, svc1, w1) \<and> recall_plan st plan_id = Some plan \<and>
      ls = fst (re_execute_walk env plan (recall_execution st plan_id)
                  (start_point from_step resume (recall_execution st plan_id)) w1) \<and>
      r = \<lparr>e_plan_id = plan_id, e_status = final_status ls, e_steps = steps_results ls,
            e_artifacts = artifacts ls, e_trace = trace ls, e_re_execution = Some True\<rparr> \<and>
      repository svc' =
        remember_execution
          (remember_plan st plan_id (plan\<lparr>p_status := final_status ls\<rparr>)) plan_id r"
proof -
  obtain st svc1 w1 where l: "load_state env svc w = (st, svc1, w1)"
    by (metis prod_cases3)
  with assms obtain plan where p: "recall_plan st plan_id = Some plan"
    by (cases "recall_plan st plan_id") (auto simp: re_execute_def)
  show ?thesis
    using assms l p
    by (auto simp: re_execute_def Let_def split: prod.splits dest: save_state_repository)
qed

lemma execute_stream_record:
  assumes "execute_stream env svc matter plan_id w = (Inr events, svc', w')"
  shows "\<exists>plan pid st svc1 w1 ls evs n r.
      resolve_plan env svc matter plan_id w = (Inr (plan, pid, st), svc1, w1) \<and>
      stream_walk env plan w1 = (ls, evs, n) \<and>
      r = \<lparr>e_plan_id = pid, e_status = final_status ls, e_steps = steps_results ls,
            e_artifacts = artifacts ls, e_trace = trace ls, e_re_execution = None\<rparr> \<and>
      events = [PlanCreated pid] @ evs
        @ [ExecutionComplete (final_status ls) pid (int (length (artifacts ls)))] \<and>
      repository svc' =
        remember_execution
          (remember_plan st pid ((plan_for_execute env plan)\<lparr>p_status := final_status ls\<rparr>))
          pid r"
proof -
  obtain x svc1 w1 where rp: "resolve_plan env svc matter plan_id w = (x, svc1, w1)"
    by (metis prod_cases3)
  with assms obtain plan pid st where x: "x = Inr (plan, pid, st)"
    by (cases x) (auto simp: execute_stream_def)
  show ?thesis
    using assms rp x
    by (auto simp: execute_stream_def Let_def split: prod.splits dest: save_state_repository)
qed

lemma recall_remembered [simp]:
  "recall_execution (remember_execution st pid r) pid = Some r"
  "recall_plan (remember_execution st pid r) pid' = recall_plan st pid'"
  "recall_plan (remember_plan st pid p) pid = Some p"
  by (simp_all add: recall_execution_def remember_execution_def recall_plan_def
      remember_plan_def)

text \<open>
  Claim C1. For every run of \<open>execute\<close>, \<open>re_execute\<close> and \<open>execute_stream\<close> that
  returns, the status of the execution record is \<open>failed\<close> if a step result is marked
  failed, otherwise \<open>attention_required\<close> if a step result was demoted, otherwise
  \<open>complete\<close>; the record the repository then holds for the plan id is the returned
  one, and the status of the plan the repository holds equals the status of the
  record. For \<open>execute_stream\<close>, which returns events, the record is the persisted one
  and its status is the one of the final event.
\<close>

theorem execution_status_from_steps:
  "(execute env svc matter plan_id w = (Inr r, svc', w') \<longrightarrow>
      e_status r = status_of_steps (e_steps r) \<and>
      recall_execution (repository svc') (e_plan_id r) = Some r \<and>
      map_option p_status (recall_plan (repository svc') (e_plan_id r)) = Some (e_status r)) \<and>
   (re_execute env svc pid from_step resume_from_failure w = (Inr r2, svc2, w2) \<longrightarrow>
      e_status r2 = status_of_steps (e_steps r2) \<and>
      recall_execution (repository svc2) (e_plan_id r2) = Some r2 \<and>
      map_option p_status (recall_plan (repository svc2) (e_plan_id r2))
        = Some (e_status r2)) \<and>
   (execute_stream env svc matter plan_id w = (Inr events, svc3, w3) \<longrightarrow>
      (\<exists>pid3 r3 n.
         hd events = PlanCreated pid3 \<and>
         last events = ExecutionComplete (e_status r3) pid3 n \<and>
         e_status r3 = status_of_steps (e_steps r3) \<and>
         recall_execution (repository svc3) pid3 = Some r3 \<and>
         map_option p_status (recall_plan (repository svc3) pid3) = Some (e_status r3)))"
proof (intro conjI impI)
  assume a: "execute env svc matter plan_id w = (Inr r, svc', w')"
  from execute_record [OF a] obtain plan pid' st svc1 w1 where
    r: "r = \<lparr>e_plan_id = pid', e_status = final_status (execute_walk env plan w1),
            e_steps = steps_results (execute_walk env plan w1),
            e_artifacts = artifacts (execute_walk env plan w1),
            e_trace = trace (execute_walk env plan w1), e_re_execution = None\<rparr>"
    and s: "repository svc' =
        remember_execution
          (remember_plan st pid'
             (plan\<lparr>p_steps := plan_steps (execute_walk env plan w1),
                    p_status := final_status (execute_walk env plan w1)\<rparr>)) pid' r"
    by blast
  have p: "e_plan_id r = pid'" by (simp add: r)
  show "e_status r = status_of_steps (e_steps r)"
    by (simp add: r status_inv_final [OF execute_walk_status_inv])
  show "recall_execution (repository svc') (e_plan_id r) = Some r"
    by (simp add: p s)
  show "map_option p_status (recall_plan (repository svc') (e_plan_id r)) = Some (e_status r)"
    by (simp add: p s) (simp add: r)
next
  assume a: "re_execute env svc pid from_step resume_from_failure w = (Inr r2, svc2, w2)"
  from re_execute_record [OF a] obtain plan st ls where
    ls: "ls = fst (re_execute_walk env plan (recall_execution st pid)
                  (start_point from_step resume_from_failure (recall_execution st pid))
                  (snd (snd (load_state env svc w))))"
    and r: "r2 = \<lparr>e_plan_id = pid, e_status = final_status ls, e_steps = steps_results ls,
            e_artifacts = artifacts ls, e_trace = trace ls, e_re_execution = Some True\<rparr>"
    and s: "repository svc2 =
        remember_execution
          (remember_plan st pid (plan\<lparr>p_status := final_status ls\<rparr>)) pid r2"
    by auto
  have i: "status_inv ls" unfolding ls by (rule re_execute_walk_status_inv)
  have p: "e_plan_id r2 = pid" by (simp add: r)
  show "e_status r2 = status_of_steps (e_steps r2)"
    by (simp add: r status_inv_final [OF i])
  show "recall_execution (repository svc2) (e_plan_id r2) = Some r2"
    by (simp add: p s)
  show "map_option p_status (recall_plan (repository svc2) (e_plan_id r2)) = Some (e_status r2)"
    by (simp add: p s) (simp add: r)
next
  assume a: "execute_stream env svc matter plan_id w = (Inr events, svc3, w3)"
  from execute_stream_record [OF a] obtain plan pid' st svc1 w1 ls evs n r where
    sw: "stream_walk env plan w1 = (ls, evs, n)"
    and r: "r = \<lparr>e_plan_id = pid', e_status = final_status ls, e_steps = steps_results ls,
            e_artifacts = artifacts ls, e_trace = trace ls, e_re_execution = None\<rparr>"
    and ev: "events = [PlanCreated pid'] @ evs
        @ [ExecutionComplete (final_status ls) pid' (int (length (artifacts ls)))]"
    and s: "repository svc3 =
        remember_execution
          (remember_plan st pid' ((plan_for_execute env plan)\<lparr>p_status := final_status ls\<rparr>))
          pid' r"
    by blast
  have i: "status_inv ls" using stream_walk_status_inv [of env plan w1] by (simp add: sw)
  have "hd events = PlanCreated pid'" by (simp add: ev)
  moreover have "last events
      = ExecutionComplete (e_status r) pid' (int (length (artifacts ls)))"
    by (simp add: ev r)
  moreover have "e_status r = status_of_steps (e_steps r)"
    by (simp add: r status_inv_final [OF i])
  moreover have "recall_execution (repository svc3) pid' = Some r" by (simp add: s)
  moreover have "map_option p_status (recall_plan (repository svc3) pid') = Some (e_status r)"
    by (simp add: s) (simp add: r)
  ultimately show "\<exists>pid3 r3 n.
         hd events = PlanCreated pid3 \<and>
         last events = ExecutionComplete (e_status r3) pid3 n \<and>
         e_status r3 = status_of_steps (e_steps r3) \<and>
         recall_execution (repository svc3) pid3 = Some r3 \<and>
         map_option p_status (recall_plan (repository svc3) pid3) = Some (e_status r3)"
    by blast
qed


lemma returned_collapse:
  "\<not> isl (fst x) \<Longrightarrow> x = (Inr (projr (fst x)), fst (snd x), snd (snd x))"
  by (cases x; cases "fst x") auto

theorem execution_status_from_steps_witness:
  "\<exists>r svc' w' events svc3 w3 r2 svc2 w2.
     execute test_env (test_service mixed_plan) None (Some ''plan-1'') 0 = (Inr r, svc', w') \<and>
     map s_status (e_steps r)
       = [Some ''complete'', Some ''failed'', Some ''failed'', Some ''attention_required''] \<and>
     e_status r = ''failed'' \<and> status_of_steps (e_steps r) = ''failed'' \<and>
     recall_execution (repository svc') ''plan-1'' = Some r \<and>
     map_option p_status (recall_plan (repository svc') ''plan-1'') = Some ''failed'' \<and>
     execute_stream test_env (test_service mixed_plan) None (Some ''plan-1'') 0
       = (Inr events, svc3, w3) \<and>
     last events = ExecutionComplete ''failed'' ''plan-1'' 2 \<and>
     map_option e_status (recall_execution (repository svc3) ''plan-1'') = Some ''failed'' \<and>
     map_option p_status (recall_plan (repository svc3) ''plan-1'') = Some ''failed'' \<and>
     re_execute test_env svc' ''plan-1'' None True w' = (Inr r2, svc2, w2) \<and>
     map s_status (e_steps r2)
       = [Some ''complete'', Some ''failed'', Some ''failed'', Some ''attention_required''] \<and>
     e_status r2 = ''failed'' \<and> status_of_steps (e_steps r2) = ''failed'' \<and>
     recall_execution (repository svc2) ''plan-1'' = Some r2 \<and>
     map_option p_status (recall_plan (repository svc2) ''plan-1'') = Some ''failed''"
proof -
  define x where "x = execute test_env (test_service mixed_plan) None (Some ''plan-1'') 0"
  define y where "y = execute_stream test_env (test_service mixed_plan) None (Some ''plan-1'') 0"
  define z where "z = re_execute test_env (fst (snd x)) ''plan-1'' None True (snd (snd x))"
  have "\<not> isl (fst x)" unfolding x_def by code_simp
  then have x: "execute test_env (test_service mixed_plan) None (Some ''plan-1'') 0
      = (Inr (projr (fst x)), fst (snd x), snd (snd x))"
    unfolding x_def by (rule returned_collapse)
  have "\<not> isl (fst y)" unfolding y_def by code_simp
  then have y: "execute_stream test_env (test_service mixed_plan) None (Some ''plan-1'') 0
      = (Inr (projr (fst y)), fst (snd y), snd (snd y))"
    unfolding y_def by (rule returned_collapse)
  have "\<not> isl (fst z)" unfolding z_def x_def by code_simp
  then have z: "re_execute test_env (fst (snd x)) ''plan-1'' None True (snd (snd x))
      = (Inr (projr (fst z)), fst (snd z), snd (snd z))"
    unfolding z_def by (rule returned_collapse)
  have px: "e_plan_id (projr (fst x)) = ''plan-1''" unfolding x_def by code_simp
  have pz: "e_plan_id (projr (fst z)) = ''plan-1''" unfolding z_def x_def by code_simp
  have sx: "map s_status (e_steps (projr (fst x)))
       = [Some ''complete'', Some ''failed'', Some ''failed'', Some ''attention_required'']"
    unfolding x_def by code_simp
  have sz: "map s_status (e_steps (projr (fst z)))
       = [Some ''complete'', Some ''failed'', Some ''failed'', Some ''attention_required'']"
    unfolding z_def x_def by code_simp
  have ex: "e_status (projr (fst x)) = ''failed''" unfolding x_def by code_simp
  have ez: "e_status (projr (fst z)) = ''failed''" unfolding z_def x_def by code_simp
  have ly: "last (projr (fst y)) = ExecutionComplete ''failed'' ''plan-1'' 2"
    unfolding y_def by code_simp
  have hy: "hd (projr (fst y)) = PlanCreated ''plan-1''"
    unfolding y_def by code_simp
  note a = execution_status_from_steps [where env = test_env
      and svc = "test_service mixed_plan" and matter = None and plan_id = "Some ''plan-1''"
      and w = 0 and r = "projr (fst x)" and svc' = "fst (snd x)" and w' = "snd (snd x)"
      and events = "projr (fst y)" and ?svc3.0 = "fst (snd y)" and ?w3.0 = "snd (snd y)"]
  note b = execution_status_from_steps [where env = test_env
      and svc = "fst (snd x)" and w = "snd (snd x)" and pid = "''plan-1''"
      and from_step = None and resume_from_failure = True
      and ?r2.0 = "projr (fst z)" and ?svc2.0 = "fst (snd z)" and ?w2.0 = "snd (snd z)"]
  have 1: "e_status (projr (fst x)) = status_of_steps (e_steps (projr (fst x)))"
    "recall_execution (repository (fst (snd x))) ''plan-1'' = Some (projr (fst x))"
    "map_option p_status (recall_plan (repository (fst (snd x))) ''plan-1'') = Some ''failed''"
    using a [THEN conjunct1, THEN mp, OF x] by (simp_all only: px ex)
  from a [THEN conjunct2, THEN conjunct2, THEN mp, OF y] obtain pid3 r3 n where 3:
    "hd (projr (fst y)) = PlanCreated pid3"
    "last (projr (fst y)) = ExecutionComplete (e_status r3) pid3 n"
    "recall_execution (repository (fst (snd y))) pid3 = Some r3"
    "map_option p_status (recall_plan (repository (fst (snd y))) pid3) = Some (e_status r3)"
    by blast
  from 3(1) hy have p3: "pid3 = ''plan-1''" by simp
  from 3(2) ly have e3: "e_status r3 = ''failed''" by simp
  have 2: "e_status (projr (fst z)) = status_of_steps (e_steps (projr (fst z)))"
    "recall_execution (repository (fst (snd z))) ''plan-1'' = Some (projr (fst z))"
    "map_option p_status (recall_plan (repository (fst (snd z))) ''plan-1'') = Some ''failed''"
    using b [THEN conjunct2, THEN conjunct1, THEN mp, OF z] by (simp_all only: pz ez)
  show ?thesis
    apply (rule exI [where x = "projr (fst x)"])
    apply (rule exI [where x = "fst (snd x)"])
    apply (rule exI [where x = "snd (snd x)"])
    apply (rule exI [where x = "projr (fst y)"])
    apply (rule exI [where x = "fst (snd y)"])
    apply (rule exI [where x = "snd (snd y)"])
    apply (rule exI [where x = "projr (fst z)"])
    apply (rule exI [where x = "fst (snd z)"])
    apply (rule exI [where x = "snd (snd z)"])
    using x y z sx sz ex ez ly 1 2 3(3,4) p3 e3 by simp
qed


section \<open>Properties of the walk: failed steps\<close>

lemma find_step_id: "find_step steps sid = Some s \<Longrightarrow> s_id s = sid"
proof -
  assume a: "find_step steps sid = Some s"
  then have ne: "filter (\<lambda>s. s_id s = sid) steps \<noteq> []"
    and s: "s = last (filter (\<lambda>s. s_id s = sid) steps)"
    by (auto simp: find_step_def split: list.splits)
  from last_in_set [OF ne] s show ?thesis by simp
qed

lemma step_of_node_id [simp]: "s_id (step_of_node steps node) = s_id node"
  by (auto simp: step_of_node_def dest: find_step_id split: option.splits)

lemma build_input_trace_start [simp]:
  "build_input env dt (trace_start st step') step = build_input env dt st step"
  by (simp add: build_input_def split: sum.splits)




















section \<open>Properties of the resolution of the plan\<close>

lemma load_state_coherent:
  assumes "cache_coherent svc" "load_state env svc w = (st, svc', w')"
  shows "st = repository svc \<and> repository svc' = repository svc \<and> cache_coherent svc' \<and>
    w' = snd (now env w)"
  using assms
  by (auto simp: load_state_def cache_coherent_def split: prod.splits option.splits if_splits)

lemma save_state_coherent:
  "save_state env svc st w = (svc', w') \<Longrightarrow> cache_coherent svc'"
  by (auto simp: save_state_def cache_coherent_def split: prod.splits)

lemma validate_plan_id_error:
  "validate_plan_id plan_id = Inl e \<Longrightarrow> \<exists>msg field. e = ValidationError msg field"
  by (auto simp: validate_plan_id_def Let_def split: option.splits if_splits)

lemma validate_matter_error:
  "validate_matter validate matter req = Inl e \<Longrightarrow> \<exists>msg field. e = ValidationError msg field"
  by (auto simp: validate_matter_def split: option.splits json.splits if_splits sum.splits
      list.splits)

lemma validate_execute_params_none:
  "validate_execute_params validate None None
     = Inl (ValidationError (''Either '' @ quoted ''matter'' @ '' or '' @ quoted ''plan_id''
                               @ '' must be provided'') None)"
  by (simp add: validate_execute_params_def)

lemma validate_execute_params_bad_matter:
  assumes "validate_matter validate (Some m) True = Inl e"
  shows "\<exists>msg field. validate_execute_params validate (Some m) plan_id
    = Inl (ValidationError msg field)"
proof (cases "plan_id \<noteq> None \<and> isl (validate_plan_id plan_id)")
  case True
  then obtain e' where "validate_plan_id plan_id = Inl e'"
    by (cases "validate_plan_id plan_id") auto
  with validate_plan_id_error [OF this] True show ?thesis
    by (auto simp: validate_execute_params_def)
next
  case False
  from validate_matter_error [OF assms] obtain msg field where
    "e = ValidationError msg field" by blast
  with assms False show ?thesis
    by (cases "validate_plan_id plan_id") (auto simp: validate_execute_params_def)
qed

lemma validate_execute_params_plan_id:
  assumes "strip p \<noteq> []" "matter = None \<or> \<not> isl (validate_matter validate matter True)"
  shows "\<exists>vm. validate_execute_params validate matter (Some p) = Inr (vm, Some (strip p))"
  using assms
  by (cases "validate_matter validate matter True")
    (auto simp: validate_execute_params_def validate_plan_id_def Let_def)

lemma resolve_plan_invalid:
  "validate_execute_params (model_validate env) matter plan_id = Inl e \<Longrightarrow>
   resolve_plan env svc matter plan_id w = (Inl e, svc, w)"
  by (simp add: resolve_plan_def)

lemma resolve_plan_not_found:
  assumes "cache_coherent svc" "strip p \<noteq> []"
    "matter = None \<or> \<not> isl (validate_matter (model_validate env) matter True)"
    "recall_plan (repository svc) (strip p) = None"
  shows "\<exists>svc'. resolve_plan env svc matter (Some p) w
      = (Inl (PlanNotFoundError (strip p)), svc', snd (now env w)) \<and>
    repository svc' = repository svc"
proof -
  from validate_execute_params_plan_id [OF assms(2,3)] obtain vm where
    v: "validate_execute_params (model_validate env) matter (Some p) = Inr (vm, Some (strip p))"
    by blast
  obtain st svc' w' where l: "load_state env svc w = (st, svc', w')" by (metis prod_cases3)
  from load_state_coherent [OF assms(1) l] assms(4) v l show ?thesis
    by (simp add: resolve_plan_def)
qed

text \<open>
  Claim C8. \<open>execute\<close> and \<open>execute_stream\<close> raise a \<open>ValidationError\<close> when both the
  matter and the plan id are \<open>None\<close> and when a matter is supplied that does not validate;
  the service and the world are then what they were. They raise \<open>PlanNotFoundError\<close>
  when the plan id, stripped, is not empty and names no plan of the repository (the
  matter, if there is one, being valid): then the repository is what it was and the
  world has only had its clock read. In each case no step has run: the world carries
  the effects of the agents, and \<open>execute_stream\<close> has yielded no event.
\<close>

theorem execute_rejects_before_any_step:
  "(matter = None \<and> plan_id = None \<longrightarrow>
      (\<exists>msg field.
         execute env svc matter plan_id w = (Inl (ValidationError msg field), svc, w) \<and>
         execute_stream env svc matter plan_id w = (Inl (ValidationError msg field), svc, w))) \<and>
   (matter = Some m \<and> isl (validate_matter (model_validate env) (Some m) True) \<longrightarrow>
      (\<exists>msg field.
         execute env svc matter plan_id w = (Inl (ValidationError msg field), svc, w) \<and>
         execute_stream env svc matter plan_id w = (Inl (ValidationError msg field), svc, w))) \<and>
   (cache_coherent svc \<and> strip p \<noteq> [] \<and>
    (matter = None \<or> \<not> isl (validate_matter (model_validate env) matter True)) \<and>
    recall_plan (repository svc) (strip p) = None \<longrightarrow>
      (\<exists>svc'.
         execute env svc matter (Some p) w
           = (Inl (PlanNotFoundError (strip p)), svc', snd (now env w)) \<and>
         execute_stream env svc matter (Some p) w
           = (Inl (PlanNotFoundError (strip p)), svc', snd (now env w)) \<and>
         repository svc' = repository svc))"
proof (intro conjI impI)
  assume "matter = None \<and> plan_id = None"
  then have "resolve_plan env svc matter plan_id w
      = (Inl (ValidationError (''Either '' @ quoted ''matter'' @ '' or '' @ quoted ''plan_id''
                               @ '' must be provided'') None), svc, w)"
    by (simp add: resolve_plan_invalid validate_execute_params_none)
  then show "\<exists>msg field.
         execute env svc matter plan_id w = (Inl (ValidationError msg field), svc, w) \<and>
         execute_stream env svc matter plan_id w = (Inl (ValidationError msg field), svc, w)"
    by (simp add: execute_def execute_stream_def)
next
  assume a: "matter = Some m \<and> isl (validate_matter (model_validate env) (Some m) True)"
  then obtain e where "validate_matter (model_validate env) (Some m) True = Inl e"
    by (cases "validate_matter (model_validate env) (Some m) True") auto
  from validate_execute_params_bad_matter [OF this] a obtain msg field where
    "validate_execute_params (model_validate env) matter plan_id
       = Inl (ValidationError msg field)"
    by blast
  then have "resolve_plan env svc matter plan_id w = (Inl (ValidationError msg field), svc, w)"
    by (rule resolve_plan_invalid)
  then show "\<exists>msg field.
         execute env svc matter plan_id w = (Inl (ValidationError msg field), svc, w) \<and>
         execute_stream env svc matter plan_id w = (Inl (ValidationError msg field), svc, w)"
    by (simp add: execute_def execute_stream_def)
next
  assume a: "cache_coherent svc \<and> strip p \<noteq> [] \<and>
    (matter = None \<or> \<not> isl (validate_matter (model_validate env) matter True)) \<and>
    recall_plan (repository svc) (strip p) = None"
  then obtain svc' where
    "resolve_plan env svc matter (Some p) w
      = (Inl (PlanNotFoundError (strip p)), svc', snd (now env w))"
    "repository svc' = repository svc"
    using resolve_plan_not_found [of svc p matter env w] by blast
  then show "\<exists>svc'.
         execute env svc matter (Some p) w
           = (Inl (PlanNotFoundError (strip p)), svc', snd (now env w)) \<and>
         execute_stream env svc matter (Some p) w
           = (Inl (PlanNotFoundError (strip p)), svc', snd (now env w)) \<and>
         repository svc' = repository svc"
    by (simp add: execute_def execute_stream_def)
qed

theorem execute_rejects_before_any_step_witness:
  "(\<exists>msg field.
      execute test_env (test_service mixed_plan) None None 0
        = (Inl (ValidationError msg field), test_service mixed_plan, 0) \<and>
      execute_stream test_env (test_service mixed_plan) None None 0
        = (Inl (ValidationError msg field), test_service mixed_plan, 0)) \<and>
   (\<exists>msg field.
      execute test_env (test_service mixed_plan) (Some (JDict [])) (Some ''plan-1'') 0
        = (Inl (ValidationError msg field), test_service mixed_plan, 0) \<and>
      execute_stream test_env (test_service mixed_plan) (Some (JDict [])) (Some ''plan-1'') 0
        = (Inl (ValidationError msg field), test_service mixed_plan, 0)) \<and>
   (\<exists>svc'.
      execute test_env (test_service mixed_plan) None (Some '' plan-9 '') 0
        = (Inl (PlanNotFoundError ''plan-9''), svc', 0) \<and>
      execute_stream test_env (test_service mixed_plan) None (Some '' plan-9 '') 0
        = (Inl (PlanNotFoundError ''plan-9''), svc', 0) \<and>
      repository svc' = repository (test_service mixed_plan))"
proof -
  have s: "strip '' plan-9 '' = ''plan-9''" by (simp add: strip_def is_space_def)
  have c: "cache_coherent (test_service mixed_plan)"
    by (simp add: cache_coherent_def test_service_def)
  have r: "recall_plan (repository (test_service mixed_plan)) ''plan-9'' = None"
    by (simp add: recall_plan_def test_service_def test_plan_def mixed_plan_def)
  have v: "isl (validate_matter (model_validate test_env) (Some (JDict [])) True)"
    by (simp add: validate_matter_def dict_get_def)
  have n: "snd (now test_env (0::nat)) = 0" by (simp add: test_env_def)
  note t = execute_rejects_before_any_step [where env = test_env
      and svc = "test_service mixed_plan" and w = 0]
  from t [where matter = None and plan_id = None, THEN conjunct1]
    t [where matter = "Some (JDict [])" and m = "JDict []" and plan_id = "Some ''plan-1''",
       THEN conjunct2, THEN conjunct1]
    v
    t [where matter = None and p = "'' plan-9 ''", THEN conjunct2, THEN conjunct2]
    c r s n
  show ?thesis by simp
qed


section \<open>Properties of re\_execute\<close>





lemma restore_one_fields [simp]:
  "steps_results (restore_one st step) = steps_results st @ [step]"
  "agent_inputs (restore_one st step) = agent_inputs st"
  "plan_steps (restore_one st step) = plan_steps st"
  "overall_status (restore_one st step) = overall_status st"
  "needs_attention (restore_one st step) = needs_attention st"
  "world (restore_one st step) = world st"
  by (simp_all add: restore_one_def Let_def split: option.splits)

lemma foldl_restore_one_fields [simp]:
  "steps_results (foldl restore_one st kept) = steps_results st @ kept"
  "agent_inputs (foldl restore_one st kept) = agent_inputs st"
  by (induction kept arbitrary: st) simp_all









section \<open>Properties of the hoisting of artifacts\<close>


lemma dict_set_keys: "fst ` set (dict_set d k v) = insert k (fst ` set d)"
  by (induction d) (auto simp: rev_image_eqI split: if_splits)

lemma dict_set_distinct: "distinct (map fst d) \<Longrightarrow> distinct (map fst (dict_set d k v))"
proof (induction d)
  case Nil
  show ?case by simp
next
  case (Cons a d)
  obtain k' v' where a: "a = (k', v')" by (cases a)
  from Cons have "distinct (map fst (dict_set d k v))" by simp
  moreover have "k' \<noteq> k \<Longrightarrow> k' \<notin> fst ` set (dict_set d k v)"
    using Cons.prems a by (auto simp: dict_set_keys)
  ultimately show ?case using Cons.prems a by auto
qed

lemma dict_update_distinct:
  "distinct (map fst d) \<Longrightarrow> distinct (map fst (dict_update d e))"
  by (induction d e rule: dict_update.induct) (simp_all add: dict_set_distinct)










lemma hoist_distinct:
  "distinct (map fst (propagated st)) \<Longrightarrow> distinct (map fst (propagated (hoist st produced)))"
  by (simp add: hoist_def dict_update_distinct)














lemma annotate_success_supporting [simp]:
  "s_supporting_agents (annotate_success step pr out) = s_supporting_agents step"
  by (simp add: annotate_success_def Let_def)



















lemma hoisted_cong:
  "propagated st' = propagated st \<Longrightarrow> plan_matter st' = plan_matter st \<Longrightarrow>
   hoisted name v st' = hoisted name v st"
  by (simp add: hoisted_def)








end
